theory Spec2Isabelle
  imports Complex_Main
begin

text \<open>
  A model of three functions of the gift recommendation backend and the properties
  stated of them: \<open>rerankGifts\<close> and \<open>generateGiftRationale\<close> of the LLM service, and
  \<open>generateJSON\<close> of the fact-extraction client. The answer of the generative backend
  is an argument of each function, as is the environment that holds the API key.
\<close>

section \<open>JavaScript strings\<close>

text \<open>
  A JavaScript string is a sequence of UTF-16 code units. The model keeps each code unit
  as a natural number, so that the Korean literals of the sources, the full-width comma of
  the keyword splitter and the \<open>\u\<close> escapes of JSON are single elements, as they are in
  the program. \<open>js\<close> turns an ASCII literal of the theory into such a string.
\<close>

type_synonym jsstring = "nat list"

definition js :: "string \<Rightarrow> jsstring" where
  "js s = map of_char s"

text \<open>
  White space as \<open>String.prototype.trim\<close> and the regular expression class \<open>\s\<close> see
  it: the WhiteSpace and LineTerminator code points of ECMAScript.
\<close>

definition isSpace :: "nat \<Rightarrow> bool" where
  "isSpace c = (c = 9 \<or> c = 10 \<or> c = 11 \<or> c = 12 \<or> c = 13 \<or> c = 32 \<or> c = 160
     \<or> c = 5760 \<or> (8192 \<le> c \<and> c \<le> 8202) \<or> c = 8232 \<or> c = 8233 \<or> c = 8239
     \<or> c = 8287 \<or> c = 12288 \<or> c = 65279)"

definition isDigit :: "nat \<Rightarrow> bool" where
  "isDigit c = (48 \<le> c \<and> c \<le> 57)"

definition trim :: "jsstring \<Rightarrow> jsstring" where
  "trim s = rev (dropWhile isSpace (rev (dropWhile isSpace s)))"

text \<open>
  \<open>toLowerCase\<close> on the letters A to Z. Other code units are left as they are, which is
  what JavaScript does for digits, punctuation and scripts without case such as Hangul;
  the case mapping of non-ASCII letters is outside the model.
\<close>

definition lowerUnit :: "nat \<Rightarrow> nat" where
  "lowerUnit c = (if 65 \<le> c \<and> c \<le> 90 then c + 32 else c)"

definition toLowerCase :: "jsstring \<Rightarrow> jsstring" where
  "toLowerCase s = map lowerUnit s"

fun startsWith :: "jsstring \<Rightarrow> jsstring \<Rightarrow> bool" where
  "startsWith s [] = True"
| "startsWith [] (p # ps) = False"
| "startsWith (c # cs) (p # ps) = (c = p \<and> startsWith cs ps)"

fun includesStr :: "jsstring \<Rightarrow> jsstring \<Rightarrow> bool" where
  "includesStr [] sub = (sub = [])"
| "includesStr (c # cs) sub = (startsWith (c # cs) sub \<or> includesStr cs sub)"

text \<open>\<open>s.indexOf(sub)\<close>: the first position where \<open>sub\<close> occurs, \<open>None\<close> for \<open>-1\<close>.\<close>

fun indexOfStr :: "jsstring \<Rightarrow> jsstring \<Rightarrow> nat option" where
  "indexOfStr [] sub = (if sub = [] then Some 0 else None)"
| "indexOfStr (c # cs) sub =
     (if startsWith (c # cs) sub then Some 0 else map_option Suc (indexOfStr cs sub))"

text \<open>\<open>s.lastIndexOf(sub)\<close>: the last position where \<open>sub\<close> occurs.\<close>

fun lastIndexOfStr :: "jsstring \<Rightarrow> jsstring \<Rightarrow> nat option" where
  "lastIndexOfStr [] sub = (if sub = [] then Some 0 else None)"
| "lastIndexOfStr (c # cs) sub =
     (case lastIndexOfStr cs sub of
        Some i \<Rightarrow> Some (Suc i)
      | None \<Rightarrow> if startsWith (c # cs) sub then Some 0 else None)"

text \<open>
  \<open>xs.slice(0, e)\<close> of JavaScript for an integer \<open>e\<close>: a negative end counts from
  the end of the array.
\<close>

definition slice0 :: "'a list \<Rightarrow> int \<Rightarrow> 'a list" where
  "slice0 xs e = (if e < 0 then take (nat (int (length xs) + e)) xs else take (nat e) xs)"

section \<open>JSON values and \<open>JSON.parse\<close>\<close>

text \<open>
  \<open>JSON.parse\<close> is the platform's parser, not code of the repository; it is modelled
  from the JSON grammar (ECMA-404) as a lexer followed by a pushdown automaton over the
  tokens. Numbers are exact rationals (the rounding of doubles is not modelled) and an
  object keeps its members in textual order.
\<close>

datatype json =
    JNull
  | JBool bool
  | JNum rat
  | JStr jsstring
  | JArr "json list"
  | JObj "(jsstring \<times> json) list"

datatype token = TLBrace | TRBrace | TLBracket | TRBracket | TComma | TColon | TValue json

definition hexVal :: "nat \<Rightarrow> nat option" where
  "hexVal c =
     (if 48 \<le> c \<and> c \<le> 57 then Some (c - 48)
      else if 65 \<le> c \<and> c \<le> 70 then Some (c - 55)
      else if 97 \<le> c \<and> c \<le> 102 then Some (c - 87)
      else None)"

definition hex4 :: "nat \<Rightarrow> nat \<Rightarrow> nat \<Rightarrow> nat \<Rightarrow> nat option" where
  "hex4 a b c d =
     (case (hexVal a, hexVal b, hexVal c, hexVal d) of
        (Some w, Some x, Some y, Some z) \<Rightarrow> Some (((w * 16 + x) * 16 + y) * 16 + z)
      | _ \<Rightarrow> None)"

definition escapeUnit :: "nat \<Rightarrow> nat option" where
  "escapeUnit c =
     (if c = 34 then Some 34 else if c = 92 then Some 92 else if c = 47 then Some 47
      else if c = 98 then Some 8 else if c = 102 then Some 12 else if c = 110 then Some 10
      else if c = 114 then Some 13 else if c = 116 then Some 9 else None)"

text \<open>
  The body of a string literal, after its opening quote: the decoded contents and the
  text after the closing quote. A raw control character, a bad escape or a missing
  closing quote is a syntax error.
\<close>

fun lexString :: "jsstring \<Rightarrow> (jsstring \<times> jsstring) option" where
  "lexString [] = None"
| "lexString (c # cs) =
     (if c = 34 then Some ([], cs)
      else if c < 32 then None
      else if c = 92 then
        (case cs of
           [] \<Rightarrow> None
         | e # es \<Rightarrow>
             if e = 117 then
               (case es of
                  h1 # h2 # h3 # h4 # rest \<Rightarrow>
                    (case hex4 h1 h2 h3 h4 of
                       None \<Rightarrow> None
                     | Some u \<Rightarrow>
                         (case lexString rest of
                            None \<Rightarrow> None
                          | Some (str, r) \<Rightarrow> Some (u # str, r)))
                | _ \<Rightarrow> None)
             else
               (case escapeUnit e of
                  None \<Rightarrow> None
                | Some u \<Rightarrow>
                    (case lexString es of
                       None \<Rightarrow> None
                     | Some (str, r) \<Rightarrow> Some (u # str, r))))
      else
        (case lexString cs of
           None \<Rightarrow> None
         | Some (str, r) \<Rightarrow> Some (c # str, r)))"

text \<open>Decimal digits to a number; the digits are known to be digits where this is used.\<close>

definition digitsVal :: "jsstring \<Rightarrow> nat" where
  "digitsVal ds = foldl (\<lambda>acc d. acc * 10 + (d - 48)) 0 ds"

text \<open>
  A number lexeme: optional minus, an integer part without a leading zero, an optional
  fraction, an optional exponent.
\<close>

definition parseExponent :: "jsstring \<Rightarrow> int option" where
  "parseExponent s =
     (case s of
        [] \<Rightarrow> Some 0
      | c # cs \<Rightarrow>
          if c = 101 \<or> c = 69 then
            (let neg = (cs \<noteq> [] \<and> hd cs = 45);
                 ds = (if cs \<noteq> [] \<and> (hd cs = 45 \<or> hd cs = 43) then tl cs else cs)
             in if ds \<noteq> [] \<and> list_all isDigit ds
                then Some (if neg then - int (digitsVal ds) else int (digitsVal ds))
                else None)
          else None)"

definition parseNumber :: "jsstring \<Rightarrow> rat option" where
  "parseNumber s =
     (let neg = (s \<noteq> [] \<and> hd s = 45);
          body = (if neg then tl s else s);
          ip = takeWhile isDigit body;
          r1 = dropWhile isDigit body;
          hasFrac = (r1 \<noteq> [] \<and> hd r1 = 46);
          fp = (if hasFrac then takeWhile isDigit (tl r1) else []);
          r2 = (if hasFrac then dropWhile isDigit (tl r1) else r1)
      in if ip = [] \<or> (length ip > 1 \<and> hd ip = 48) \<or> (hasFrac \<and> fp = []) then None
         else
           (case parseExponent r2 of
              None \<Rightarrow> None
            | Some e \<Rightarrow>
                (let m = of_nat (digitsVal ip) + of_nat (digitsVal fp) / 10 ^ length fp;
                     v = (if 0 \<le> e then m * 10 ^ nat e else m / 10 ^ nat (- e))
                 in Some (if neg then - v else v))))"

definition isNumberUnit :: "nat \<Rightarrow> bool" where
  "isNumberUnit c = (isDigit c \<or> c = 45 \<or> c = 43 \<or> c = 46 \<or> c = 101 \<or> c = 69)"

definition isJsonSpace :: "nat \<Rightarrow> bool" where
  "isJsonSpace c = (c = 32 \<or> c = 9 \<or> c = 10 \<or> c = 13)"

lemma lexString_shorter: "lexString s = Some (str, r) \<Longrightarrow> length r < length s"
proof (induction s arbitrary: str r rule: lexString.induct)
  case 1
  then show ?case by simp
next
  case (2 c cs)
  then show ?case
    by (fastforce split: if_splits list.splits option.splits prod.splits)
qed

function lexJson :: "jsstring \<Rightarrow> token list option" where
  "lexJson [] = Some []"
| "lexJson (c # cs) =
     (if isJsonSpace c then lexJson cs
      else if c = 123 then map_option ((#) TLBrace) (lexJson cs)
      else if c = 125 then map_option ((#) TRBrace) (lexJson cs)
      else if c = 91 then map_option ((#) TLBracket) (lexJson cs)
      else if c = 93 then map_option ((#) TRBracket) (lexJson cs)
      else if c = 44 then map_option ((#) TComma) (lexJson cs)
      else if c = 58 then map_option ((#) TColon) (lexJson cs)
      else if c = 34 then
        (case lexString cs of
           None \<Rightarrow> None
         | Some (str, rest) \<Rightarrow> map_option ((#) (TValue (JStr str))) (lexJson rest))
      else if c = 45 \<or> isDigit c then
        (case parseNumber (c # takeWhile isNumberUnit cs) of
           None \<Rightarrow> None
         | Some v \<Rightarrow> map_option ((#) (TValue (JNum v))) (lexJson (dropWhile isNumberUnit cs)))
      else if startsWith (c # cs) (js ''true'') then
        map_option ((#) (TValue (JBool True))) (lexJson (drop 3 cs))
      else if startsWith (c # cs) (js ''false'') then
        map_option ((#) (TValue (JBool False))) (lexJson (drop 4 cs))
      else if startsWith (c # cs) (js ''null'') then
        map_option ((#) (TValue JNull)) (lexJson (drop 3 cs))
      else None)"
  by pat_completeness auto
termination
proof (relation "measure length")
  show "wf (measure length)" by simp
next
  fix c cs x2 x y
  assume "lexString cs = Some x2" "(x, y) = x2"
  then show "(y, c # cs) \<in> measure length"
    using lexString_shorter [of cs x y] by simp
next
  fix c cs x2
  show "(dropWhile isNumberUnit cs, c # cs) \<in> measure length"
    using length_dropWhile_le [of isNumberUnit cs] by simp
qed simp_all

text \<open>The automaton: what the parser expects next, and the stack of open containers.\<close>

datatype mode =
    WantValue
  | WantValueOrClose
  | WantKeyOrClose
  | WantKey
  | WantColon
  | WantCommaOrClose
  | Finished json
  | Failed

datatype frame =
    ArrFrame "json list"
  | ObjFrame "(jsstring \<times> json) list"
  | KeyFrame "(jsstring \<times> json) list" jsstring

fun pushValue :: "json \<Rightarrow> frame list \<Rightarrow> mode \<times> frame list" where
  "pushValue v [] = (Finished v, [])"
| "pushValue v (ArrFrame es # st) = (WantCommaOrClose, ArrFrame (es @ [v]) # st)"
| "pushValue v (KeyFrame kvs k # st) = (WantCommaOrClose, ObjFrame (kvs @ [(k, v)]) # st)"
| "pushValue v (ObjFrame kvs # st) = (Failed, [])"

fun startValue :: "token \<Rightarrow> frame list \<Rightarrow> mode \<times> frame list" where
  "startValue (TValue v) st = pushValue v st"
| "startValue TLBracket st = (WantValueOrClose, ArrFrame [] # st)"
| "startValue TLBrace st = (WantKeyOrClose, ObjFrame [] # st)"
| "startValue t st = (Failed, [])"

fun closeTop :: "token \<Rightarrow> frame list \<Rightarrow> mode \<times> frame list" where
  "closeTop TRBracket (ArrFrame es # st) = pushValue (JArr es) st"
| "closeTop TRBrace (ObjFrame kvs # st) = pushValue (JObj kvs) st"
| "closeTop t st = (Failed, [])"

fun startKey :: "token \<Rightarrow> frame list \<Rightarrow> mode \<times> frame list" where
  "startKey (TValue (JStr k)) (ObjFrame kvs # st) = (WantColon, KeyFrame kvs k # st)"
| "startKey t st = (Failed, [])"

fun parseStep :: "mode \<times> frame list \<Rightarrow> token \<Rightarrow> mode \<times> frame list" where
  "parseStep (WantValue, st) t = startValue t st"
| "parseStep (WantValueOrClose, st) t =
     (if t = TRBracket then closeTop t st else startValue t st)"
| "parseStep (WantKeyOrClose, st) t =
     (if t = TRBrace then closeTop t st else startKey t st)"
| "parseStep (WantKey, st) t = startKey t st"
| "parseStep (WantColon, st) t = (if t = TColon then (WantValue, st) else (Failed, []))"
| "parseStep (WantCommaOrClose, st) t =
     (if t = TComma then
        (case st of
           ArrFrame es # r \<Rightarrow> (WantValue, st)
         | ObjFrame kvs # r \<Rightarrow> (WantKey, st)
         | _ \<Rightarrow> (Failed, []))
      else closeTop t st)"
| "parseStep (Finished v, st) t = (Failed, [])"
| "parseStep (Failed, st) t = (Failed, [])"

text \<open>\<open>JSON.parse\<close>: \<open>None\<close> is the SyntaxError it throws.\<close>

definition JSON_parse :: "jsstring \<Rightarrow> json option" where
  "JSON_parse s =
     (case lexJson s of
        None \<Rightarrow> None
      | Some ts \<Rightarrow>
          (case foldl parseStep (WantValue, []) ts of
             (Finished v, st) \<Rightarrow> Some v
           | _ \<Rightarrow> None))"


section \<open>The gift pool and its identity rule\<close>

text \<open>
  A gift as the re-ranking service reads it. A field that is absent in the JavaScript
  object is the empty string here: every read of these fields is of the form
  \<open>a || b\<close> or \<open>if (a)\<close>, which treats \<open>undefined\<close> and \<open>""\<close> alike.
  \<open>gift.metadata\<close> itself may be missing (\<open>gift.metadata || {}\<close>).
\<close>

record metadata =
  m_name :: jsstring
  m_product_name :: jsstring
  m_category :: jsstring
  m_unified_text :: jsstring
  m_productId :: jsstring
  m_id :: jsstring

record gift =
  g_id :: jsstring
  g_name :: jsstring
  g_document :: jsstring
  g_metadata :: "metadata option"

record preferenceItem =
  item :: jsstring
  evidence :: "jsstring list"
  weight :: rat

record preferenceProfile =
  likes :: "preferenceItem list"
  dislikes :: "preferenceItem list"
  uncertain :: "preferenceItem list"

record originalData =
  rank :: jsstring
  gender :: jsstring
  memo :: jsstring
  addMemo :: jsstring

record environment =
  OPENAI_API_KEY :: "jsstring option"

text \<open>What the call to the chat-completion endpoint can come back with.\<close>

datatype backendResponse =
    RequestFailed
  | NoChoices
  | Choice jsstring

datatype error = ApiKeyNotConfigured | BackendError | JsonParseError

text \<open>\<open>!process.env.OPENAI_API_KEY\<close> is false exactly for a non-empty string.\<close>

definition keyConfigured :: "environment \<Rightarrow> bool" where
  "keyConfigured env = (case OPENAI_API_KEY env of None \<Rightarrow> False | Some k \<Rightarrow> k \<noteq> [])"

text \<open>\<open>a || b\<close> on strings.\<close>

definition orElse :: "jsstring \<Rightarrow> jsstring \<Rightarrow> jsstring" where
  "orElse a b = (if a \<noteq> [] then a else b)"

text \<open>\<open>gift.metadata || {}\<close>.\<close>

definition noMetadata :: metadata where
  "noMetadata = \<lparr>m_name = [], m_product_name = [], m_category = [], m_unified_text = [],
     m_productId = [], m_id = []\<rparr>"

definition metadataOf :: "gift \<Rightarrow> metadata" where
  "metadataOf g = (case g_metadata g of None \<Rightarrow> noMetadata | Some m \<Rightarrow> m)"

text \<open>\<open>gift.id || gift.metadata?.productId || gift.metadata?.id\<close>.\<close>

definition productId :: "gift \<Rightarrow> jsstring" where
  "productId g = orElse (g_id g) (orElse (m_productId (metadataOf g)) (m_id (metadataOf g)))"

text \<open>
  \<open>(gift.metadata?.name || gift.metadata?.product_name || gift.name || "").trim().toLowerCase()\<close>.
\<close>

definition productName :: "gift \<Rightarrow> jsstring" where
  "productName g =
     toLowerCase (trim (orElse (m_name (metadataOf g))
       (orElse (m_product_name (metadataOf g)) (g_name g))))"

text \<open>
  The de-duplication loop, written three times in \<open>rerankGifts\<close> with the same effect:
  a gift whose product id was seen is dropped; otherwise its id is recorded and the gift
  is dropped when its name was seen; otherwise its name is recorded and the gift is kept.
\<close>

fun dedupeFrom :: "jsstring list \<Rightarrow> jsstring list \<Rightarrow> gift list \<Rightarrow> gift list" where
  "dedupeFrom seenProductIds seenProductNames [] = []"
| "dedupeFrom seenProductIds seenProductNames (g # gs) =
     (if productId g \<noteq> [] \<and> productId g \<in> set seenProductIds then
        dedupeFrom seenProductIds seenProductNames gs
      else
        (let ids = (if productId g \<noteq> [] then productId g # seenProductIds
                    else seenProductIds)
         in if productName g \<noteq> [] \<and> productName g \<in> set seenProductNames then
              dedupeFrom ids seenProductNames gs
            else
              g # dedupeFrom ids
                    (if productName g \<noteq> [] then productName g # seenProductNames
                     else seenProductNames) gs))"

definition dedupeGifts :: "gift list \<Rightarrow> gift list" where
  "dedupeGifts gs = dedupeFrom [] [] gs"

section \<open>Pre-filter\<close>

definition giftName :: "gift \<Rightarrow> jsstring" where
  "giftName g = orElse (m_name (metadataOf g)) (m_product_name (metadataOf g))"

definition giftDocument :: "gift \<Rightarrow> jsstring" where
  "giftDocument g = orElse (g_document g) (m_unified_text (metadataOf g))"

text \<open>
  \<open>preferenceProfile && preferenceProfile.likes && Array.isArray(...) && likes.length > 0\<close>.
\<close>

definition hasLikes :: "preferenceProfile option \<Rightarrow> bool" where
  "hasLikes profile = (case profile of None \<Rightarrow> False | Some p \<Rightarrow> likes p \<noteq> [])"

definition likesItems :: "preferenceProfile \<Rightarrow> jsstring list" where
  "likesItems p = filter (\<lambda>s. s \<noteq> []) (map (\<lambda>l. trim (toLowerCase (item l))) (likes p))"

definition isLikesRelated :: "jsstring list \<Rightarrow> gift \<Rightarrow> bool" where
  "isLikesRelated items g =
     (let name = toLowerCase (giftName g);
          category = toLowerCase (m_category (metadataOf g));
          document = toLowerCase (giftDocument g);
          searchText = name @ js '' '' @ category @ js '' '' @ document
      in list_ex (\<lambda>likeItem. includesStr searchText likeItem \<or> includesStr name likeItem
                    \<or> includesStr category likeItem) items)"

definition maxGiftsForRerank :: nat where
  "maxGiftsForRerank = 30"

text \<open>
  The working set and, for each of its positions, the index in the pool
  (\<open>filteredGifts\<close> and \<open>filteredIndices\<close>).
\<close>

definition prefilter :: "gift list \<Rightarrow> preferenceProfile option \<Rightarrow> gift list \<times> nat list" where
  "prefilter gifts profile =
     (case profile of
        Some p \<Rightarrow>
          if likes p \<noteq> [] then
            (let likesRelatedGifts =
                   filter (\<lambda>i. isLikesRelated (likesItems p) (gifts ! i)) [0..<length gifts];
                 otherGifts =
                   filter (\<lambda>i. \<not> isLikesRelated (likesItems p) (gifts ! i)) [0..<length gifts];
                 likesToInclude = min (length likesRelatedGifts) maxGiftsForRerank;
                 othersToInclude = maxGiftsForRerank - likesToInclude;
                 filteredIndices =
                   take likesToInclude likesRelatedGifts @ take othersToInclude otherGifts
             in (map ((!) gifts) filteredIndices, filteredIndices))
          else if length gifts > 30 then
            (map ((!) gifts) (take 30 [0..<length gifts]), take 30 [0..<length gifts])
          else (gifts, [0..<length gifts])
      | None \<Rightarrow>
          if length gifts > 30 then
            (map ((!) gifts) (take 30 [0..<length gifts]), take 30 [0..<length gifts])
          else (gifts, [0..<length gifts]))"

section \<open>Fallback, validation and translation\<close>

text \<open>\<open>xs[i]\<close>: \<open>None\<close> is \<open>undefined\<close>.\<close>

definition nthOpt :: "'a list \<Rightarrow> nat \<Rightarrow> 'a option" where
  "nthOpt xs i = (if i < length xs then Some (xs ! i) else None)"

text \<open>\<open>xs.indexOf(x)\<close>, \<open>None\<close> for \<open>-1\<close>.\<close>

fun indexOf :: "'a list \<Rightarrow> 'a \<Rightarrow> nat option" where
  "indexOf [] x = None"
| "indexOf (y # ys) x = (if y = x then Some 0 else map_option Suc (indexOf ys x))"

text \<open>
  \<open>filteredGifts.slice(0, topN).map(g => gifts[filteredIndices[filteredGifts.indexOf(g)]]).filter(Boolean)\<close>
\<close>

definition fallbackTopN :: "gift list \<Rightarrow> gift list \<Rightarrow> nat list \<Rightarrow> nat \<Rightarrow> gift list" where
  "fallbackTopN gifts filteredGifts filteredIndices topN =
     List.map_filter
       (\<lambda>g. case indexOf filteredGifts g of
               None \<Rightarrow> None
             | Some idx \<Rightarrow>
                 (case nthOpt filteredIndices idx of
                    None \<Rightarrow> None
                  | Some i \<Rightarrow> nthOpt gifts i))
       (take topN filteredGifts)"

text \<open>
  A literal followed by an optional line feed, removed wherever it occurs:
  \<open>.replace(/```json\n?/g, "")\<close> and \<open>.replace(/```\n?/g, "")\<close>.
\<close>

function removeAll :: "jsstring \<Rightarrow> jsstring \<Rightarrow> jsstring" where
  "removeAll pat [] = []"
| "removeAll pat (c # cs) =
     (if pat \<noteq> [] \<and> startsWith (c # cs) pat then
        (let rest = drop (length pat) (c # cs)
         in removeAll pat (if rest \<noteq> [] \<and> hd rest = 10 then tl rest else rest))
      else c # removeAll pat cs)"
  by pat_completeness auto
termination
  by (relation "measure (\<lambda>(pat, s). length s)") (auto simp: neq_Nil_conv)

definition isIndexBody :: "nat \<Rightarrow> bool" where
  "isIndexBody c = (isDigit c \<or> isSpace c \<or> c = 44)"

text \<open>\<open>cleanedResult.match(/\[[\d\s,]*\]/)\<close>: the leftmost match, if any.\<close>

fun indexArrayMatch :: "jsstring \<Rightarrow> jsstring option" where
  "indexArrayMatch [] = None"
| "indexArrayMatch (c # cs) =
     (if c = 91 \<and> dropWhile isIndexBody cs \<noteq> [] \<and> hd (dropWhile isIndexBody cs) = 93
      then Some (c # takeWhile isIndexBody cs @ [93])
      else indexArrayMatch cs)"

text \<open>
  From the content of the first choice to the parsed \<open>rankedIndices\<close>; \<open>None\<close> when
  \<open>JSON.parse\<close> throws.
\<close>

definition parseRankedIndices :: "jsstring \<Rightarrow> json option" where
  "parseRankedIndices content =
     (let result = trim content;
          cleanedResult = trim (removeAll (js ''```'') (removeAll (js ''```json'') result))
      in case indexArrayMatch cleanedResult of
           Some m \<Rightarrow> JSON_parse m
         | None \<Rightarrow> JSON_parse cleanedResult)"

text \<open>\<open>parseInt(s, 10)\<close>; \<open>None\<close> is \<open>NaN\<close>.\<close>

definition parseInt :: "jsstring \<Rightarrow> int option" where
  "parseInt s =
     (let t = dropWhile isSpace s;
          neg = (t \<noteq> [] \<and> hd t = 45);
          body = (if t \<noteq> [] \<and> (hd t = 45 \<or> hd t = 43) then tl t else t);
          ds = takeWhile isDigit body
      in if ds = [] then None
         else Some (if neg then - int (digitsVal ds) else int (digitsVal ds)))"

text \<open>
  One element of \<open>rankedIndices\<close>: a string goes through \<open>parseInt\<close>; the value is kept
  when it is an integer in \<open>[0, filteredGifts.length)\<close>, and is \<open>null\<close> otherwise.
\<close>

fun toIndex :: "nat \<Rightarrow> json \<Rightarrow> nat option" where
  "toIndex n (JStr s) =
     (case parseInt s of
        None \<Rightarrow> None
      | Some i \<Rightarrow> if 0 \<le> i \<and> i < int n then Some (nat i) else None)"
| "toIndex n (JNum r) =
     (if r = of_int \<lfloor>r\<rfloor> \<and> 0 \<le> r \<and> r < of_nat n then Some (nat \<lfloor>r\<rfloor>) else None)"
| "toIndex n v = None"

definition validIndices :: "nat \<Rightarrow> nat \<Rightarrow> json list \<Rightarrow> nat list" where
  "validIndices n topN rankedIndices = take topN (List.map_filter (toIndex n) rankedIndices)"

text \<open>Duplicates removed, the first occurrence kept (the loop over a \<open>Set\<close>).\<close>

fun uniqueFrom :: "nat list \<Rightarrow> nat list \<Rightarrow> nat list" where
  "uniqueFrom seen [] = []"
| "uniqueFrom seen (i # is) =
     (if i \<in> set seen then uniqueFrom seen is else i # uniqueFrom (i # seen) is)"

text \<open>
  \<open>const gift = gifts[idx]\<close> for each index of a loop whose body reads \<open>gift.id\<close>: an
  index out of range throws a TypeError (\<open>None\<close>).
\<close>

definition giftsAt :: "gift list \<Rightarrow> nat list \<Rightarrow> gift list option" where
  "giftsAt gifts idxs =
     (if list_all (\<lambda>i. i < length gifts) idxs then Some (map ((!) gifts) idxs) else None)"

section \<open>Coverage enforcement for the two memo fields\<close>

text \<open>The placeholder for a missing field, the four Hangul syllables of "no information".\<close>

definition placeholder :: jsstring where
  "placeholder = [51221, 48372, 50630, 51020]"

text \<open>
  \<open>memo.split(/[,\<dots>\s]+/).map(k => k.trim()).filter(k => k && k.length > 0)\<close>, the
  separators being the comma, the full-width comma (U+FF0C) and white space.
\<close>

definition isKeywordSeparator :: "nat \<Rightarrow> bool" where
  "isKeywordSeparator c = (c = 44 \<or> c = 65292 \<or> isSpace c)"

fun splitRuns :: "(nat \<Rightarrow> bool) \<Rightarrow> jsstring \<Rightarrow> jsstring list" where
  "splitRuns sep [] = [[]]"
| "splitRuns sep (c # cs) =
     (if sep c then
        (if cs \<noteq> [] \<and> sep (hd cs) then splitRuns sep cs else [] # splitRuns sep cs)
      else
        (case splitRuns sep cs of
           [] \<Rightarrow> [[c]]
         | p # ps \<Rightarrow> (c # p) # ps))"

definition keywordsOf :: "jsstring \<Rightarrow> jsstring list" where
  "keywordsOf m = filter (\<lambda>k. k \<noteq> []) (map trim (splitRuns isKeywordSeparator m))"

definition searchTextOf :: "gift \<Rightarrow> jsstring" where
  "searchTextOf g =
     toLowerCase (giftName g @ js '' '' @ m_category (metadataOf g) @ js '' '' @ giftDocument g)"

definition isKeywordRelated :: "jsstring list \<Rightarrow> gift \<Rightarrow> bool" where
  "isKeywordRelated keywords g =
     list_ex (\<lambda>keyword. keyword \<noteq> [] \<and> includesStr (searchTextOf g) (toLowerCase keyword))
       keywords"

text \<open>
  \<open>memoRelatedGifts\<close> and \<open>addMemoRelatedGifts\<close>: the pool indices, in order, of the
  gifts related to the keywords (a gift related to both is in both lists).
\<close>

definition relatedIndices :: "jsstring list \<Rightarrow> gift list \<Rightarrow> nat list" where
  "relatedIndices keywords gifts =
     filter (\<lambda>i. isKeywordRelated keywords (gifts ! i)) [0..<length gifts]"

text \<open>Step 1: a memo-related gift is forced in when the ranking has none.\<close>

definition forcedMemo :: "nat list \<Rightarrow> nat list \<Rightarrow> nat list" where
  "forcedMemo memoRelatedGifts uniqueIndices =
     (if filter (\<lambda>idx. idx \<in> set memoRelatedGifts) uniqueIndices = [] \<and> memoRelatedGifts \<noteq> []
      then
        (let availableMemoGifts = filter (\<lambda>idx. idx \<notin> set uniqueIndices) memoRelatedGifts
         in if availableMemoGifts \<noteq> [] then [hd availableMemoGifts]
            else [hd memoRelatedGifts])
      else [])"

text \<open>Step 2: the same for the additional memo, after step 1.\<close>

definition forcedAddMemo :: "nat list \<Rightarrow> nat list \<Rightarrow> nat list \<Rightarrow> nat list" where
  "forcedAddMemo addMemoRelatedGifts uniqueIndices finalIndices =
     (if filter (\<lambda>idx. idx \<in> set addMemoRelatedGifts) uniqueIndices = []
         \<and> addMemoRelatedGifts \<noteq> []
      then
        (let availableAddMemoGifts =
               filter (\<lambda>idx. idx \<notin> set finalIndices \<and> idx \<notin> set uniqueIndices)
                 addMemoRelatedGifts
         in if availableAddMemoGifts \<noteq> [] then [hd availableAddMemoGifts]
            else
              (let existingAddMemoGifts =
                     filter (\<lambda>idx. idx \<in> set uniqueIndices) addMemoRelatedGifts
               in if existingAddMemoGifts \<noteq> [] then [hd existingAddMemoGifts] else []))
      else [])"

text \<open>
  Step 3: the ranking's own memo-related, additional-memo-related and other gifts fill
  the rest, one of each kind first when the list still lacks that kind.
\<close>

definition coverageIndices :: "nat list \<Rightarrow> nat list \<Rightarrow> nat list \<Rightarrow> nat \<Rightarrow> nat list" where
  "coverageIndices memoRelatedGifts addMemoRelatedGifts uniqueIndices topN =
     (let final1 = forcedMemo memoRelatedGifts uniqueIndices;
          final2 = final1 @ forcedAddMemo addMemoRelatedGifts uniqueIndices final1;
          rankedMemoGifts =
            filter (\<lambda>idx. idx \<in> set memoRelatedGifts \<and> idx \<notin> set final2) uniqueIndices;
          rankedAddMemoGifts =
            filter (\<lambda>idx. idx \<in> set addMemoRelatedGifts \<and> idx \<notin> set memoRelatedGifts
                      \<and> idx \<notin> set final2) uniqueIndices;
          rankedOtherGifts =
            filter (\<lambda>idx. idx \<notin> set memoRelatedGifts \<and> idx \<notin> set addMemoRelatedGifts
                      \<and> idx \<notin> set final2) uniqueIndices;
          final3 = final2 @
            (if filter (\<lambda>idx. idx \<in> set memoRelatedGifts) final2 = [] \<and> rankedMemoGifts \<noteq> []
             then [hd rankedMemoGifts] else []);
          final4 = final3 @
            (if filter (\<lambda>idx. idx \<in> set addMemoRelatedGifts) final3 = []
                \<and> rankedAddMemoGifts \<noteq> []
             then [hd rankedAddMemoGifts] else []);
          remainingSlots = int topN - int (length final4);
          candidates =
            filter (\<lambda>idx. idx \<notin> set final4)
              (tl rankedMemoGifts @ tl rankedAddMemoGifts @ rankedOtherGifts)
      in final4 @ slice0 candidates remainingSlots)"

section \<open>\<open>rerankGifts\<close>\<close>

text \<open>
  The indices the model's answer is reduced to (\<open>uniqueIndices\<close>, pool indices); the
  empty list stands for every answer the function rejects.
\<close>

definition acceptedIndices :: "nat \<Rightarrow> nat list \<Rightarrow> nat \<Rightarrow> jsstring \<Rightarrow> nat list" where
  "acceptedIndices n filteredIndices topN content =
     (case parseRankedIndices content of
        Some (JArr rankedIndices) \<Rightarrow>
          uniqueFrom [] (map ((!) filteredIndices) (validIndices n topN rankedIndices))
      | _ \<Rightarrow> [])"

text \<open>
  The \<open>try\<close> block once a choice has arrived. \<open>None\<close> is an exception, which the
  \<open>catch\<close> of \<open>rerankGifts\<close> receives. The prompt, which the block builds first, and the
  log lines only produce strings and do not enter the result.
\<close>

definition rankWithChoice ::
  "gift list \<Rightarrow> originalData \<Rightarrow> nat \<Rightarrow> preferenceProfile option \<Rightarrow> gift list \<Rightarrow> nat list
     \<Rightarrow> jsstring \<Rightarrow> gift list option" where
  "rankWithChoice gifts od topN profile filteredGifts filteredIndices content =
     (case parseRankedIndices content of
        None \<Rightarrow> Some (fallbackTopN gifts filteredGifts filteredIndices topN)
      | Some (JArr rankedIndices) \<Rightarrow>
          if rankedIndices = [] then Some (fallbackTopN gifts filteredGifts filteredIndices topN)
          else
            (let valid = validIndices (length filteredGifts) topN rankedIndices;
                 originalIndices = map ((!) filteredIndices) valid
             in if valid = [] then Some (fallbackTopN gifts filteredGifts filteredIndices topN)
                else
                  (let uniqueIndices = uniqueFrom [] originalIndices;
                       rankedGifts = List.map_filter (nthOpt gifts) uniqueIndices
                   in if uniqueIndices = [] then
                        Some (fallbackTopN gifts filteredGifts filteredIndices topN)
                      else if hasLikes profile then
                        Some (dedupeGifts (take topN rankedGifts))
                      else if trim (memo od) \<noteq> [] \<and> trim (addMemo od) \<noteq> []
                              \<and> trim (memo od) \<noteq> placeholder
                              \<and> trim (addMemo od) \<noteq> placeholder then
                        map_option dedupeGifts
                          (giftsAt gifts
                             (take topN
                                (coverageIndices
                                   (relatedIndices (keywordsOf (trim (memo od))) gifts)
                                   (relatedIndices (keywordsOf (trim (addMemo od))) gifts)
                                   uniqueIndices topN)))
                      else map_option dedupeGifts (giftsAt gifts uniqueIndices)))
      | Some other \<Rightarrow> Some (fallbackTopN gifts filteredGifts filteredIndices topN))"

text \<open>
  \<open>rerankGifts(gifts, personaString, originalData, topN, preferenceProfile)\<close>, with the
  environment and the answer of the backend as further arguments. \<open>Inl\<close> is the error
  thrown to the caller. \<open>topN\<close> is a natural number (the target count is at least 1 by
  its specification), so that \<open>slice(0, topN)\<close> is \<open>take topN\<close>.
\<close>

definition rerankGifts ::
  "environment \<Rightarrow> backendResponse \<Rightarrow> gift list \<Rightarrow> jsstring \<Rightarrow> originalData \<Rightarrow> nat
     \<Rightarrow> preferenceProfile option \<Rightarrow> error + gift list" where
  "rerankGifts env response gifts personaString od topN profile =
     (if \<not> keyConfigured env then Inl ApiKeyNotConfigured
      else if gifts = [] then Inr []
      else if length gifts \<le> topN then Inr gifts
      else
        (case (case response of
                 RequestFailed \<Rightarrow> None
               | NoChoices \<Rightarrow> None
               | Choice content \<Rightarrow>
                   rankWithChoice gifts od topN profile (fst (prefilter gifts profile))
                     (snd (prefilter gifts profile)) content) of
           None \<Rightarrow> Inr (take topN gifts)
         | Some ranked \<Rightarrow> Inr ranked))"

section \<open>\<open>generateGiftRationale\<close>\<close>

record rationale =
  title :: json
  description :: json

text \<open>Truthiness of a parsed value.\<close>

fun truthy :: "json \<Rightarrow> bool" where
  "truthy JNull = False"
| "truthy (JBool b) = b"
| "truthy (JNum r) = (r \<noteq> 0)"
| "truthy (JStr s) = (s \<noteq> [])"
| "truthy v = True"

text \<open>
  Reading a property of the parsed value: of an object, the last member of that name;
  of anything else, nothing (reading it of \<open>null\<close> throws, which the inner \<open>catch\<close>
  turns into the same fallback).
\<close>

fun property :: "jsstring \<Rightarrow> json \<Rightarrow> json option" where
  "property k (JObj kvs) = map_of (rev kvs) k"
| "property k v = None"

definition parseRationale :: "jsstring \<Rightarrow> rationale option" where
  "parseRationale content =
     (let result = trim content;
          cleanedResult = trim (removeAll (js ''```'') (removeAll (js ''```json'') result))
      in case JSON_parse cleanedResult of
           None \<Rightarrow> None
         | Some v \<Rightarrow>
             (case (property (js ''title'') v, property (js ''description'') v) of
                (Some t, Some d) \<Rightarrow>
                  if truthy t \<and> truthy d then Some \<lparr>title = t, description = d\<rparr> else None
              | _ \<Rightarrow> None))"

text \<open>The Korean literals of the fallbacks, as code units.\<close>

definition recommendedGift :: jsstring where
  "recommendedGift = [52628, 52380, 32, 49440, 47932]"

definition giftWord :: jsstring where
  "giftWord = [49440, 47932]"

definition fittedTo :: jsstring where
  "fittedTo = [50640, 32, 47582, 52656, 32]"

definition isRecommended :: jsstring where
  "isRecommended = [51012, 40, 47484, 41, 32, 52628, 52380, 46300, 47549, 45768, 45796, 46]"

definition recommended :: jsstring where
  "recommended = [52628, 52380, 46300, 47549, 45768, 45796, 46]"

text \<open>
  The fallback after the \<open>if\<close> on the choices: the title is the part of \<open>addMemo\<close> before
  its first underscore when that field is set, the category otherwise.
\<close>

definition simpleRationale :: "gift \<Rightarrow> jsstring \<Rightarrow> originalData \<Rightarrow> rationale" where
  "simpleRationale g personaString od =
     \<lparr>title = JStr (if addMemo od \<noteq> [] \<and> addMemo od \<noteq> placeholder
                     then takeWhile (\<lambda>c. c \<noteq> 95) (addMemo od)
                     else orElse (m_category (metadataOf g)) recommendedGift),
      description = JStr (personaString @ fittedTo @ orElse (giftName g) giftWord
                          @ isRecommended)\<rparr>"

text \<open>The fallback of the \<open>catch\<close>.\<close>

definition catchRationale :: "gift \<Rightarrow> jsstring \<Rightarrow> rationale" where
  "catchRationale g personaString =
     \<lparr>title = JStr (orElse (m_category (metadataOf g)) recommendedGift),
      description = JStr (personaString @ fittedTo @ recommended)\<rparr>"

definition generateGiftRationale ::
  "environment \<Rightarrow> backendResponse \<Rightarrow> gift \<Rightarrow> jsstring \<Rightarrow> originalData \<Rightarrow> error + rationale"
  where
  "generateGiftRationale env response g personaString od =
     (if \<not> keyConfigured env then Inl ApiKeyNotConfigured
      else
        (case response of
           RequestFailed \<Rightarrow> Inr (catchRationale g personaString)
         | NoChoices \<Rightarrow> Inr (simpleRationale g personaString od)
         | Choice content \<Rightarrow>
             (case parseRationale content of
                Some r \<Rightarrow> Inr r
              | None \<Rightarrow> Inr (simpleRationale g personaString od))))"

section \<open>\<open>generateJSON\<close>: extraction, normalisation and recovery\<close>

text \<open>
  \<open>text.match(/```(?:json)?\s*([\s\S]*?)```/)\<close>: the capture group of the leftmost
  match. The match starts at the first fence; the tag and the white space after it hold
  no backquote, so a closing fence exists for the first opening fence whenever it exists
  for a later one.
\<close>

definition fenceMatch :: "jsstring \<Rightarrow> jsstring option" where
  "fenceMatch text =
     (case indexOfStr text (js ''```'') of
        None \<Rightarrow> None
      | Some p \<Rightarrow>
          (let after = drop (p + 3) text;
               untagged = (if startsWith after (js ''json'') then drop 4 after else after);
               body = dropWhile isSpace untagged
           in case indexOfStr body (js ''```'') of
                None \<Rightarrow> None
              | Some q \<Rightarrow> Some (take q body)))"

text \<open>
  \<open>text.match(/(\{[\s\S]*\})/)\<close> and \<open>text.match(/(\[[\s\S]*\])/)\<close>: from the first
  opening character to the last closing character after it.
\<close>

definition greedyBetween :: "nat \<Rightarrow> nat \<Rightarrow> jsstring \<Rightarrow> jsstring option" where
  "greedyBetween opening closing text =
     (let fromOpening = dropWhile (\<lambda>c. c \<noteq> opening) text
      in if fromOpening = [] then None
         else
           (let reversed = dropWhile (\<lambda>c. c \<noteq> closing) (rev (tl fromOpening))
            in if reversed = [] then None else Some (opening # rev reversed)))"

text \<open>
  \<open>.replace(/,(\s*[\}\]])/g, '$1')\<close>: a comma followed by optional white space and a
  closing brace or bracket is removed. The rest of such a match holds no comma, so
  scanning on from the character after the comma gives what the regular expression gives.
\<close>

fun stripTrailingCommas :: "jsstring \<Rightarrow> jsstring" where
  "stripTrailingCommas [] = []"
| "stripTrailingCommas (c # cs) =
     (if c = 44 \<and> dropWhile isSpace cs \<noteq> []
           \<and> (hd (dropWhile isSpace cs) = 125 \<or> hd (dropWhile isSpace cs) = 93)
      then stripTrailingCommas cs
      else c # stripTrailingCommas cs)"

text \<open>
  The four patterns of the first recovery strategy. \<open>CloseThen c d\<close> is the global
  \<open>/c\s*d/g\<close>; \<open>CloseCommaEol c\<close> is \<open>/c\s*,\s*$/m\<close>, which has no \<open>g\<close> flag.
\<close>

datatype pattern = CloseThen nat nat | CloseCommaEol nat

definition isLineTerminator :: "nat \<Rightarrow> bool" where
  "isLineTerminator c = (c = 10 \<or> c = 13 \<or> c = 8232 \<or> c = 8233)"

text \<open>The length of the match of \<open>c\s*d\<close> at the head of the text.\<close>

definition matchPairAt :: "nat \<Rightarrow> nat \<Rightarrow> jsstring \<Rightarrow> nat option" where
  "matchPairAt c d t =
     (case t of
        [] \<Rightarrow> None
      | x # rest \<Rightarrow>
          if x = c \<and> dropWhile isSpace rest \<noteq> [] \<and> hd (dropWhile isSpace rest) = d
          then Some (length (takeWhile isSpace rest) + 2)
          else None)"

text \<open>The position of the last line terminator of a run of white space.\<close>

fun lastLineTerminator :: "jsstring \<Rightarrow> nat option" where
  "lastLineTerminator [] = None"
| "lastLineTerminator (c # cs) =
     (case lastLineTerminator cs of
        Some i \<Rightarrow> Some (Suc i)
      | None \<Rightarrow> if isLineTerminator c then Some 0 else None)"

text \<open>
  The length of the match of \<open>c\s*,\s*$\<close> (multiline) at the head of the text: the
  second run of white space is taken as far as the end of the text or, failing that, up
  to its last line terminator.
\<close>

definition matchCommaEolAt :: "nat \<Rightarrow> jsstring \<Rightarrow> nat option" where
  "matchCommaEolAt c t =
     (case t of
        [] \<Rightarrow> None
      | x # rest \<Rightarrow>
          if x = c \<and> dropWhile isSpace rest \<noteq> [] \<and> hd (dropWhile isSpace rest) = 44 then
            (let afterComma = tl (dropWhile isSpace rest)
             in if dropWhile isSpace afterComma = [] then
                  Some (length (takeWhile isSpace rest) + 2 + length afterComma)
                else
                  (case lastLineTerminator (takeWhile isSpace afterComma) of
                     None \<Rightarrow> None
                   | Some m \<Rightarrow> Some (length (takeWhile isSpace rest) + 2 + m)))
          else None)"

text \<open>The leftmost match in a text that starts at position \<open>pos\<close>: its index and length.\<close>

fun findFrom :: "(jsstring \<Rightarrow> nat option) \<Rightarrow> jsstring \<Rightarrow> nat \<Rightarrow> (nat \<times> nat) option" where
  "findFrom m [] pos = None"
| "findFrom m (c # cs) pos =
     (case m (c # cs) of
        Some len \<Rightarrow> Some (pos, len)
      | None \<Rightarrow> findFrom m cs (Suc pos))"

text \<open>
  \<open>pattern.exec(testStr)\<close>: the match (index and length) and the \<open>lastIndex\<close> the
  pattern is left with. A global pattern searches from \<open>lastIndex\<close> and moves it behind
  the match; a pattern without the \<open>g\<close> flag always searches from the start and leaves
  \<open>lastIndex\<close> alone.
\<close>

definition execPattern :: "pattern \<Rightarrow> jsstring \<Rightarrow> nat \<Rightarrow> (nat \<times> nat \<times> nat) option" where
  "execPattern p s lastIndex =
     (case p of
        CloseThen c d \<Rightarrow>
          (case findFrom (matchPairAt c d) (drop lastIndex s) lastIndex of
             None \<Rightarrow> None
           | Some m \<Rightarrow> Some (fst m, snd m, fst m + snd m))
      | CloseCommaEol c \<Rightarrow>
          (case findFrom (matchCommaEolAt c) s 0 of
             None \<Rightarrow> None
           | Some m \<Rightarrow> Some (fst m, snd m, lastIndex)))"

text \<open>
  \<open>while ((match = pattern.exec(testStr)) !== null) { if (match.index > lastSafePos)
  lastSafePos = match.index + match[0].length - 1; }\<close>. The loop need not end: \<open>None\<close>
  is a run that never leaves it.
\<close>

partial_function (option) scanPattern :: "pattern \<Rightarrow> jsstring \<Rightarrow> nat \<Rightarrow> int \<Rightarrow> int option" where
  "scanPattern p s lastIndex lastSafePos =
     (case execPattern p s lastIndex of
        None \<Rightarrow> Some lastSafePos
      | Some m \<Rightarrow>
          scanPattern p s (snd (snd m))
            (if int (fst m) > lastSafePos then int (fst m) + int (fst (snd m)) - 1
             else lastSafePos))"

declare scanPattern.simps [code]

definition lastSafePosOf :: "jsstring \<Rightarrow> int option" where
  "lastSafePosOf s =
     Option.bind (scanPattern (CloseCommaEol 125) s 0 (- 1)) (\<lambda>a.
     Option.bind (scanPattern (CloseThen 125 93) s 0 a) (\<lambda>b.
     Option.bind (scanPattern (CloseCommaEol 93) s 0 b) (\<lambda>c.
       scanPattern (CloseThen 93 125) s 0 c)))"

definition countOf :: "nat \<Rightarrow> jsstring \<Rightarrow> nat" where
  "countOf c s = length (filter (\<lambda>x. x = c) s)"

text \<open>
  The text of the first strategy once \<open>lastSafePos\<close> is known: cut, normalised, and
  closed with the missing brackets and then the missing braces.
\<close>

definition closeBrackets :: "jsstring \<Rightarrow> int \<Rightarrow> jsstring" where
  "closeBrackets jsonStr lastSafePos =
     (let fixedJson = stripTrailingCommas (take (nat (lastSafePos + 1)) jsonStr)
      in fixedJson
         @ replicate (countOf 91 fixedJson - countOf 93 fixedJson) 93
         @ replicate (countOf 123 fixedJson - countOf 125 fixedJson) 125)"

text \<open>
  The first strategy. The outer \<open>None\<close> is a run that does not end; \<open>Some None\<close> is
  \<open>null\<close> or an exception of \<open>JSON.parse\<close>, which the caller treats alike.
\<close>

definition strategy1 :: "jsstring \<Rightarrow> json option option" where
  "strategy1 jsonStr =
     (case lastSafePosOf jsonStr of
        None \<Rightarrow> None
      | Some lastSafePos \<Rightarrow>
          Some (if 2 * lastSafePos > int (length jsonStr)
                then JSON_parse (closeBrackets jsonStr lastSafePos)
                else None))"

text \<open>
  The second strategy. \<open>matchKeyAt\<close> is a match of
  \<open>/"(business_cards|events|memos|gifts|chats)"\s*:\s*\[/\<close> at the head of the text:
  the key and the length of the match.
\<close>

definition knownKeys :: "jsstring list" where
  "knownKeys = [js ''business_cards'', js ''events'', js ''memos'', js ''gifts'', js ''chats'']"

definition matchKeyAt :: "jsstring \<Rightarrow> (jsstring \<times> nat) option" where
  "matchKeyAt t =
     (case t of
        [] \<Rightarrow> None
      | x # rest \<Rightarrow>
          if x \<noteq> 34 then None
          else
            (case find (\<lambda>k. startsWith rest (k @ [34])) knownKeys of
               None \<Rightarrow> None
             | Some k \<Rightarrow>
                 (let a = drop (length k + 1) rest;
                      b = dropWhile isSpace a
                  in if b \<noteq> [] \<and> hd b = 58 \<and> dropWhile isSpace (tl b) \<noteq> []
                        \<and> hd (dropWhile isSpace (tl b)) = 91
                     then Some (k, length k + 2 + length (takeWhile isSpace a) + 1
                                   + length (takeWhile isSpace (tl b)) + 1)
                     else None)))"

text \<open>
  The matches of the key pattern in order, each with its \<open>startIdx\<close>. No match can start
  inside another, so looking at every position gives the matches of the global loop.
\<close>

fun keyMatches :: "jsstring \<Rightarrow> nat \<Rightarrow> (jsstring \<times> nat) list" where
  "keyMatches [] pos = []"
| "keyMatches (c # cs) pos =
     (case matchKeyAt (c # cs) of
        Some m \<Rightarrow> (fst m, pos + snd m) # keyMatches cs (Suc pos)
      | None \<Rightarrow> keyMatches cs (Suc pos))"

text \<open>
  \<open>for (let i = startIdx; i < jsonStr.length && depth > 0; i++)\<close>: the depth and
  \<open>endIdx\<close> when the loop stops.
\<close>

fun scanDepth :: "jsstring \<Rightarrow> nat \<Rightarrow> nat \<Rightarrow> nat \<Rightarrow> nat \<times> nat" where
  "scanDepth [] i depth endIdx = (depth, endIdx)"
| "scanDepth (c # cs) i depth endIdx =
     (if depth = 0 then (depth, endIdx)
      else
        (let d = (if c = 91 then depth + 1 else if c = 93 then depth - 1 else depth)
         in scanDepth cs (Suc i) d (if d = 0 then i else endIdx)))"

text \<open>The array salvaged for one key; \<open>None\<close> when nothing is assigned to the key.\<close>

definition salvageArray :: "jsstring \<Rightarrow> nat \<Rightarrow> json option" where
  "salvageArray jsonStr startIdx =
     (let scanned = scanDepth (drop startIdx jsonStr) startIdx 1 startIdx
      in if fst scanned = 0 then
           JSON_parse (stripTrailingCommas
             (js ''['' @ take (snd scanned - startIdx) (drop startIdx jsonStr) @ js '']''))
         else
           (case lastIndexOfStr (drop startIdx jsonStr) (js ''},'') of
              None \<Rightarrow> None
            | Some lastComplete \<Rightarrow>
                if lastComplete > 0 then
                  JSON_parse (stripTrailingCommas
                    (js ''['' @ take (lastComplete + 1) (drop startIdx jsonStr) @ js '']''))
                else None))"

text \<open>\<open>result[key] = value\<close> on an object kept as a list of members.\<close>

fun assign :: "jsstring \<Rightarrow> json \<Rightarrow> (jsstring \<times> json) list \<Rightarrow> (jsstring \<times> json) list" where
  "assign k v [] = [(k, v)]"
| "assign k v (m # ms) = (if fst m = k then (k, v) # ms else m # assign k v ms)"

definition strategy2 :: "jsstring \<Rightarrow> json option" where
  "strategy2 jsonStr =
     (let result =
            foldl (\<lambda>acc m. case salvageArray jsonStr (snd m) of
                               None \<Rightarrow> acc
                             | Some v \<Rightarrow> assign (fst m) v acc)
              [] (keyMatches jsonStr 0)
      in if result \<noteq> [] then Some (JObj result) else None)"

text \<open>The candidate text: the fenced block, else the object, else the array, else all.\<close>

definition extractCandidate :: "jsstring \<Rightarrow> jsstring" where
  "extractCandidate text =
     (case fenceMatch text of
        Some inner \<Rightarrow> trim inner
      | None \<Rightarrow>
          (case greedyBetween 123 125 text of
             Some objectMatch \<Rightarrow> objectMatch
           | None \<Rightarrow>
               (case greedyBetween 91 93 text of
                  Some arrayMatch \<Rightarrow> arrayMatch
                | None \<Rightarrow> text)))"

text \<open>
  \<open>generateJSON\<close> from the text of the model on: \<open>None\<close> is a run that does not
  return, \<open>Inl\<close> the error thrown when every strategy has failed.
\<close>

definition lastResort :: "jsstring \<Rightarrow> error + json" where
  "lastResort jsonStr =
     (case strategy2 jsonStr of
        Some v \<Rightarrow> Inr v
      | None \<Rightarrow> Inl JsonParseError)"

definition recover :: "jsstring \<Rightarrow> (error + json) option" where
  "recover text =
     (let jsonStr = stripTrailingCommas (extractCandidate text)
      in case JSON_parse jsonStr of
           Some v \<Rightarrow> Some (Inr v)
         | None \<Rightarrow>
             (case strategy1 jsonStr of
                None \<Rightarrow> None
              | Some None \<Rightarrow> Some (lastResort jsonStr)
              | Some (Some v) \<Rightarrow>
                  if truthy v then Some (Inr v) else Some (lastResort jsonStr)))"

text \<open>
  \<open>generateJSON\<close> with \<open>generateText\<close> before it: a missing key and a failed request
  are thrown on to the caller.
\<close>

definition generateJSON :: "environment \<Rightarrow> backendResponse \<Rightarrow> (error + json) option" where
  "generateJSON env response =
     (if \<not> keyConfigured env then Some (Inl ApiKeyNotConfigured)
      else
        (case response of
           RequestFailed \<Rightarrow> Some (Inl BackendError)
         | NoChoices \<Rightarrow> Some (Inl BackendError)
         | Choice text \<Rightarrow> recover text))"

section \<open>Notions used in the statements\<close>

text \<open>
  A list of gifts in which no two entries have the same non-empty product id and no two
  have the same non-empty normalised name.
\<close>

definition noSharedIdentity :: "gift list \<Rightarrow> bool" where
  "noSharedIdentity gs =
     (distinct (filter (\<lambda>s. s \<noteq> []) (map productId gs))
      \<and> distinct (filter (\<lambda>s. s \<noteq> []) (map productName gs)))"


text \<open>
  The ranking taken from the answer of the backend, as pool indices: \<open>uniqueIndices\<close>
  of \<open>rerankGifts\<close> for the working set of the pre-filter. It is empty when the request
  failed, when the answer cannot be parsed, and when the answer holds no valid index.
\<close>

definition rankingOf :: "gift list \<Rightarrow> preferenceProfile option \<Rightarrow> nat \<Rightarrow> backendResponse \<Rightarrow> nat list" where
  "rankingOf gifts profile topN response =
     (case response of
        Choice content \<Rightarrow>
          acceptedIndices (length (fst (prefilter gifts profile))) (snd (prefilter gifts profile))
            topN content
      | _ \<Rightarrow> [])"

section \<open>Concrete inputs\<close>

text \<open>A few environments, gifts, pools and persona data on which the functions are run.\<close>

definition keyedEnv :: environment where
  "keyedEnv = \<lparr>OPENAI_API_KEY = Some (js ''sk-test'')\<rparr>"

definition noKeyEnv :: environment where
  "noKeyEnv = \<lparr>OPENAI_API_KEY = None\<rparr>"

definition namedGift :: "string \<Rightarrow> string \<Rightarrow> string \<Rightarrow> gift" where
  "namedGift i n d =
     \<lparr>g_id = js i, g_name = [], g_document = js d,
      g_metadata = Some \<lparr>m_name = js n, m_product_name = [], m_category = [],
        m_unified_text = [], m_productId = [], m_id = []\<rparr>\<rparr>"

definition wineSet :: gift where
  "wineSet = namedGift ''1'' ''Wine Set'' ''red wine''"

definition candleSet :: gift where
  "candleSet = namedGift ''2'' ''Candle Set'' ''scented''"

definition backSupport :: gift where
  "backSupport = namedGift ''3'' ''Back Support'' ''lumbar''"

definition golfBag :: gift where
  "golfBag = namedGift ''4'' ''Golf Bag'' ''stand bag''"

definition wineSetAgain :: gift where
  "wineSetAgain = namedGift ''5'' '' wine set'' ''white wine''"

definition yogaMat :: gift where
  "yogaMat = namedGift ''6'' ''Yoga Mat'' ''non-slip''"

definition golfBox :: gift where
  "golfBox = namedGift ''7'' ''Gift Box'' ''golf balls''"

definition yogaBox :: gift where
  "yogaBox = namedGift ''8'' ''Gift Box'' ''yoga strap''"

definition teaTin :: gift where
  "teaTin =
     \<lparr>g_id = js ''9'', g_name = [], g_document = [],
      g_metadata = Some \<lparr>m_name = js ''Tea Tin'', m_product_name = [],
        m_category = js ''Food'', m_unified_text = [], m_productId = [], m_id = []\<rparr>\<rparr>"

definition fourGifts :: "gift list" where
  "fourGifts = [wineSet, candleSet, backSupport, golfBag]"

definition dupPool :: "gift list" where
  "dupPool = [wineSet, wineSetAgain, candleSet, golfBag]"

definition covPool :: "gift list" where
  "covPool = [wineSet, candleSet, backSupport, golfBag, yogaMat]"

definition boxPool :: "gift list" where
  "boxPool = [wineSet, candleSet, golfBox, yogaBox]"

definition noData :: originalData where
  "noData = \<lparr>rank = [], gender = [], memo = [], addMemo = []\<rparr>"

definition golfYoga :: originalData where
  "golfYoga = \<lparr>rank = [], gender = [], memo = js ''golf'', addMemo = js ''yoga''\<rparr>"

definition candleLumbar :: originalData where
  "candleLumbar = \<lparr>rank = [], gender = [], memo = js ''candle'', addMemo = js ''lumbar''\<rparr>"

definition birthday :: originalData where
  "birthday = \<lparr>rank = [], gender = [], memo = [], addMemo = js ''birthday_dinner''\<rparr>"

definition golfLikes :: preferenceProfile where
  "golfLikes =
     \<lparr>likes = [\<lparr>item = js ''Golf'', evidence = [js ''plays golf''], weight = 9 / 10\<rparr>],
      dislikes = [], uncertain = []\<rparr>"

section \<open>Auxiliary lemmas\<close>

lemma map_filter_length: "length (List.map_filter f xs) \<le> length xs"
  by (induction xs) (auto simp: List.map_filter_simps split: option.splits)

lemma map_filter_id: "(\<And>x. x \<in> set xs \<Longrightarrow> f x = Some x) \<Longrightarrow> List.map_filter f xs = xs"
  by (induction xs) (auto simp: List.map_filter_simps)

lemma map_filter_nthOpt:
  "list_all (\<lambda>i. i < length xs) idxs \<Longrightarrow> List.map_filter (nthOpt xs) idxs = map ((!) xs) idxs"
  by (induction idxs) (auto simp: List.map_filter_simps nthOpt_def)

lemma map_filter_nthOpt_subset: "set (List.map_filter (nthOpt xs) idxs) \<subseteq> set xs"
  by (induction idxs) (auto simp: List.map_filter_simps nthOpt_def)

lemma indexOf_Some: "indexOf xs x = Some i \<Longrightarrow> i < length xs \<and> xs ! i = x"
  by (induction xs arbitrary: i) (auto split: if_splits)

lemma indexOf_mem: "x \<in> set xs \<Longrightarrow> \<exists>i. indexOf xs x = Some i"
  by (induction xs) auto

lemma dedupeFrom_subset: "set (dedupeFrom a b gs) \<subseteq> set gs"
  by (induction gs arbitrary: a b) (auto simp: Let_def)

lemma dedupeFrom_length: "length (dedupeFrom a b gs) \<le> length gs"
  by (induction gs arbitrary: a b) (auto simp: Let_def le_SucI)

lemma uniqueFrom_subset: "set (uniqueFrom seen xs) \<subseteq> set xs"
  by (induction xs arbitrary: seen) auto

lemma uniqueFrom_length: "length (uniqueFrom seen xs) \<le> length xs"
  by (induction xs arbitrary: seen) (auto simp: le_SucI)

lemma uniqueFrom_nonempty: "xs \<noteq> [] \<Longrightarrow> uniqueFrom [] xs \<noteq> []"
  by (cases xs) auto

lemma toIndex_less: "toIndex n v = Some i \<Longrightarrow> i < n"
  by (cases v) (auto split: option.splits if_splits simp: floor_less_iff)

lemma validIndices_less: "i \<in> set (validIndices n topN vs) \<Longrightarrow> i < n"
  unfolding validIndices_def
  by (auto dest!: in_set_takeD simp: List.map_filter_def toIndex_less)

lemma validIndices_length: "length (validIndices n topN vs) \<le> topN"
  by (simp add: validIndices_def)

lemma map_filter_mem: "y \<in> set (List.map_filter f xs) \<Longrightarrow> \<exists>x\<in>set xs. f x = Some y"
  by (auto simp: List.map_filter_def)

lemma fallbackTopN_subset: "set (fallbackTopN gifts fg fi topN) \<subseteq> set gifts"
proof
  fix y assume "y \<in> set (fallbackTopN gifts fg fi topN)"
  then obtain g where
    "(case indexOf fg g of None \<Rightarrow> None
      | Some idx \<Rightarrow> (case nthOpt fi idx of None \<Rightarrow> None | Some i \<Rightarrow> nthOpt gifts i)) = Some y"
    unfolding fallbackTopN_def by (blast dest: map_filter_mem)
  then obtain i where "nthOpt gifts i = Some y"
    by (auto split: option.splits)
  then show "y \<in> set gifts"
    by (auto simp: nthOpt_def split: if_splits)
qed

lemma fallbackTopN_length: "length (fallbackTopN gifts fg fi topN) \<le> topN"
  unfolding fallbackTopN_def
  by (rule order_trans [OF map_filter_length]) simp

lemma prefilter_map: "fst (prefilter gifts profile) = map ((!) gifts) (snd (prefilter gifts profile))"
  by (auto simp: prefilter_def Let_def map_nth split: option.splits)

lemma prefilter_range: "i \<in> set (snd (prefilter gifts profile)) \<Longrightarrow> i < length gifts"
  by (auto simp: prefilter_def Let_def split: option.splits if_splits dest!: in_set_takeD)

lemma prefilter_length: "length (fst (prefilter gifts profile)) = length (snd (prefilter gifts profile))"
  by (simp add: prefilter_map)

lemma fallbackTopN_take:
  assumes "fg = map ((!) gifts) fi" and "\<And>i. i \<in> set fi \<Longrightarrow> i < length gifts"
  shows "fallbackTopN gifts fg fi topN = take topN fg"
  unfolding fallbackTopN_def
proof (rule map_filter_id)
  fix g assume "g \<in> set (take topN fg)"
  then have "g \<in> set fg" by (rule in_set_takeD)
  then obtain idx where idx: "indexOf fg g = Some idx" using indexOf_mem by fastforce
  then have lt: "idx < length fg" and eq: "fg ! idx = g" using indexOf_Some by fastforce+
  from lt assms(1) have lt': "idx < length fi" by simp
  then have "fi ! idx \<in> set fi" by simp
  then have "fi ! idx < length gifts" by (rule assms(2))
  moreover from eq assms(1) lt' have "gifts ! (fi ! idx) = g" by simp
  ultimately show "(case indexOf fg g of None \<Rightarrow> None
      | Some idx \<Rightarrow> (case nthOpt fi idx of None \<Rightarrow> None | Some i \<Rightarrow> nthOpt gifts i)) = Some g"
    using idx lt' by (simp add: nthOpt_def)
qed

lemma dedupeFrom_fresh_id:
  "x \<in> set (dedupeFrom I Nm gs) \<Longrightarrow> productId x \<noteq> [] \<Longrightarrow> productId x \<notin> set I"
proof (induction gs arbitrary: I Nm)
  case Nil
  then show ?case by simp
next
  case (Cons g gs)
  show ?case
  proof (cases "productId g \<noteq> [] \<and> productId g \<in> set I")
    case True
    with Cons show ?thesis by simp
  next
    case False
    with Cons.prems Cons.IH [of "if productId g \<noteq> [] then productId g # I else I"]
    show ?thesis
      by (auto simp: Let_def split: if_splits)
  qed
qed

lemma dedupeFrom_fresh_name:
  "x \<in> set (dedupeFrom I Nm gs) \<Longrightarrow> productName x \<noteq> [] \<Longrightarrow> productName x \<notin> set Nm"
proof (induction gs arbitrary: I Nm)
  case Nil
  then show ?case by simp
next
  case (Cons g gs)
  show ?case
  proof (cases "productId g \<noteq> [] \<and> productId g \<in> set I")
    case True
    with Cons show ?thesis by simp
  next
    case False
    with Cons.prems
      Cons.IH [of "if productId g \<noteq> [] then productId g # I else I" Nm]
      Cons.IH [of "if productId g \<noteq> [] then productId g # I else I"
                  "if productName g \<noteq> [] then productName g # Nm else Nm"]
    show ?thesis
      by (auto simp: Let_def split: if_splits)
  qed
qed

lemma dedupeFrom_distinct_ids:
  "distinct (filter (\<lambda>s. s \<noteq> []) (map productId (dedupeFrom I Nm gs)))"
proof (induction gs arbitrary: I Nm)
  case Nil
  then show ?case by simp
next
  case (Cons g gs)
  show ?case
    using Cons.IH by (auto simp: Let_def dest: dedupeFrom_fresh_id)
qed

lemma dedupeFrom_distinct_names:
  "distinct (filter (\<lambda>s. s \<noteq> []) (map productName (dedupeFrom I Nm gs)))"
proof (induction gs arbitrary: I Nm)
  case Nil
  then show ?case by simp
next
  case (Cons g gs)
  show ?case
    using Cons.IH by (auto simp: Let_def dest: dedupeFrom_fresh_name)
qed

lemma dedupeGifts_noSharedIdentity: "noSharedIdentity (dedupeGifts gs)"
  by (simp add: noSharedIdentity_def dedupeGifts_def dedupeFrom_distinct_ids
      dedupeFrom_distinct_names)




lemma hd_filter_mem: "filter P xs \<noteq> [] \<Longrightarrow> hd (filter P xs) \<in> set xs \<and> P (hd (filter P xs))"
  by (induction xs) auto

lemma forcedMemo_cases: "forcedMemo M U = [] \<or> (\<exists>x\<in>set M. forcedMemo M U = [x])"
  using hd_filter_mem [of "\<lambda>idx. idx \<notin> set U" M]
  by (auto simp: forcedMemo_def Let_def)

lemma forcedAddMemo_cases: "forcedAddMemo A U F = [] \<or> (\<exists>x\<in>set A. forcedAddMemo A U F = [x])"
  using hd_filter_mem [of "\<lambda>idx. idx \<notin> set F \<and> idx \<notin> set U" A]
    hd_filter_mem [of "\<lambda>idx. idx \<in> set U" A]
  by (auto simp: forcedAddMemo_def Let_def)







lemma set_tl_subset: "set (tl xs) \<subseteq> set xs"
  by (cases xs) auto

lemma set_slice0_subset: "set (slice0 xs e) \<subseteq> set xs"
  by (auto simp: slice0_def dest: in_set_takeD)

lemma coverageIndices_subset:
  "set (coverageIndices M A U N) \<subseteq> set M \<union> set A \<union> set U"
proof -
  define F1 where "F1 = forcedMemo M U"
  define fa where "fa = forcedAddMemo A U F1"
  define F2 where "F2 = F1 @ fa"
  define rM where "rM = filter (\<lambda>idx. idx \<in> set M \<and> idx \<notin> set F2) U"
  define rA where "rA = filter (\<lambda>idx. idx \<in> set A \<and> idx \<notin> set M \<and> idx \<notin> set F2) U"
  define rO where "rO = filter (\<lambda>idx. idx \<notin> set M \<and> idx \<notin> set A \<and> idx \<notin> set F2) U"
  define p3 where "p3 = (if filter (\<lambda>idx. idx \<in> set M) F2 = [] \<and> rM \<noteq> [] then [hd rM] else [])"
  define F3 where "F3 = F2 @ p3"
  define p4 where "p4 = (if filter (\<lambda>idx. idx \<in> set A) F3 = [] \<and> rA \<noteq> [] then [hd rA] else [])"
  define F4 where "F4 = F3 @ p4"
  define cand where "cand = filter (\<lambda>idx. idx \<notin> set F4) (tl rM @ tl rA @ rO)"
  define rest where "rest = slice0 cand (int N - int (length F4))"
  have final: "coverageIndices M A U N = F4 @ rest"
    unfolding coverageIndices_def Let_def rest_def cand_def F4_def p4_def F3_def p3_def
      rM_def rA_def rO_def F2_def fa_def F1_def
    by (rule refl)
  have F1: "set F1 \<subseteq> set M"
    using forcedMemo_cases [of M U] by (auto simp: F1_def)
  have fa: "set fa \<subseteq> set A"
    using forcedAddMemo_cases [of A U F1] by (auto simp: fa_def)
  have rM: "set rM \<subseteq> set U" and rA: "set rA \<subseteq> set U" and rO: "set rO \<subseteq> set U"
    by (auto simp: rM_def rA_def rO_def)
  have p3: "set p3 \<subseteq> set U"
    using rM hd_in_set [of rM] by (auto simp: p3_def)
  have p4: "set p4 \<subseteq> set U"
    using rA hd_in_set [of rA] by (auto simp: p4_def)
  have "set cand \<subseteq> set U"
    using rM rA rO set_tl_subset [of rM] set_tl_subset [of rA] by (auto simp: cand_def)
  with set_slice0_subset [of cand] have rest: "set rest \<subseteq> set U"
    unfolding rest_def by blast
  show ?thesis
    unfolding final F4_def F3_def F2_def using F1 fa p3 p4 rest by auto
qed

lemma acceptedIndices_length: "length (acceptedIndices n fi topN content) \<le> topN"
proof -
  have "\<And>vs. length (uniqueFrom [] (map ((!) fi) (validIndices n topN vs))) \<le> topN"
    by (rule order_trans [OF uniqueFrom_length]) (simp add: validIndices_length)
  then show ?thesis
    by (simp add: acceptedIndices_def split: option.splits json.splits)
qed

lemma acceptedIndices_range:
  assumes "\<And>i. i \<in> set fi \<Longrightarrow> i < m" and "x \<in> set (acceptedIndices (length fi) fi topN content)"
  shows "x < m"
proof -
  from assms(2) obtain vs where "x \<in> set (uniqueFrom [] (map ((!) fi) (validIndices (length fi) topN vs)))"
    by (auto simp: acceptedIndices_def split: option.splits json.splits)
  then have "x \<in> set (map ((!) fi) (validIndices (length fi) topN vs))"
    using uniqueFrom_subset by blast
  then obtain j where "j < length fi" "x = fi ! j"
    by (auto dest: validIndices_less)
  then show ?thesis using assms(1) by simp
qed

lemma rankWithChoice_rejected:
  assumes "acceptedIndices (length fg) fi topN content = []"
  shows "rankWithChoice gifts od topN profile fg fi content = Some (fallbackTopN gifts fg fi topN)"
proof (cases "parseRankedIndices content")
  case None
  then show ?thesis by (simp add: rankWithChoice_def)
next
  case (Some v)
  show ?thesis
  proof (cases v)
    case (JArr xs)
    with Some assms have "uniqueFrom [] (map ((!) fi) (validIndices (length fg) topN xs)) = []"
      by (simp add: acceptedIndices_def)
    with Some JArr show ?thesis by (simp add: rankWithChoice_def Let_def)
  qed (use Some in \<open>simp_all add: rankWithChoice_def\<close>)
qed

lemma rankWithChoice_accepted:
  assumes "acceptedIndices (length fg) fi topN content = U" and "U \<noteq> []"
  shows "rankWithChoice gifts od topN profile fg fi content =
     (if hasLikes profile then Some (dedupeGifts (take topN (List.map_filter (nthOpt gifts) U)))
      else if trim (memo od) \<noteq> [] \<and> trim (addMemo od) \<noteq> []
              \<and> trim (memo od) \<noteq> placeholder \<and> trim (addMemo od) \<noteq> placeholder then
        map_option dedupeGifts
          (giftsAt gifts
             (take topN
                (coverageIndices (relatedIndices (keywordsOf (trim (memo od))) gifts)
                   (relatedIndices (keywordsOf (trim (addMemo od))) gifts) U topN)))
      else map_option dedupeGifts (giftsAt gifts U))"
proof -
  from assms obtain xs where parse: "parseRankedIndices content = Some (JArr xs)"
    and U: "U = uniqueFrom [] (map ((!) fi) (validIndices (length fg) topN xs))"
    by (auto simp: acceptedIndices_def split: option.splits json.splits)
  from U assms(2) have valid: "validIndices (length fg) topN xs \<noteq> []" by auto
  then have xs: "xs \<noteq> []" by (auto simp: validIndices_def List.map_filter_simps)
  show ?thesis
    unfolding rankWithChoice_def parse
    using xs valid assms(2) U by (simp add: Let_def)
qed

lemma relatedIndices_range: "i \<in> set (relatedIndices kws gifts) \<Longrightarrow> i < length gifts"
  by (simp add: relatedIndices_def)



lemma giftsAt_Some:
  "(\<And>i. i \<in> set idxs \<Longrightarrow> i < length gifts) \<Longrightarrow> giftsAt gifts idxs = Some (map ((!) gifts) idxs)"
  by (simp add: giftsAt_def list_all_iff)

lemma giftsAt_subset: "giftsAt gifts idxs = Some gs \<Longrightarrow> set gs \<subseteq> set gifts \<and> length gs = length idxs"
  by (auto simp: giftsAt_def list_all_iff split: if_splits)

text \<open>Every result of the block, for the working set of the pre-filter.\<close>

lemma rankWithChoice_prefilter:
  assumes "rankWithChoice gifts od topN profile (fst (prefilter gifts profile))
             (snd (prefilter gifts profile)) content = Some res"
  shows "res = take topN (fst (prefilter gifts profile))
         \<or> (\<exists>xs. res = dedupeGifts xs \<and> set xs \<subseteq> set gifts \<and> length xs \<le> topN)"
proof (cases "acceptedIndices (length (fst (prefilter gifts profile)))
                (snd (prefilter gifts profile)) topN content = []")
  case True
  from rankWithChoice_rejected [OF True] assms
  have "res = fallbackTopN gifts (fst (prefilter gifts profile)) (snd (prefilter gifts profile)) topN"
    by simp
  then show ?thesis
    using fallbackTopN_take [OF prefilter_map prefilter_range] by simp
next
  case False
  define U where "U = acceptedIndices (length (fst (prefilter gifts profile)))
                (snd (prefilter gifts profile)) topN content"
  have lenU: "length U \<le> topN" unfolding U_def by (rule acceptedIndices_length)
  from rankWithChoice_accepted [OF U_def [symmetric]] False assms
  consider (likes) "res = dedupeGifts (take topN (List.map_filter (nthOpt gifts) U))"
    | (cover) idxs where "giftsAt gifts (take topN idxs) = Some (map ((!) gifts) (take topN idxs))"
         "res = dedupeGifts (map ((!) gifts) (take topN idxs))"
         "list_all (\<lambda>i. i < length gifts) (take topN idxs)"
    | (plain) "giftsAt gifts U = Some (map ((!) gifts) U)" "res = dedupeGifts (map ((!) gifts) U)"
         "list_all (\<lambda>i. i < length gifts) U"
    by (auto simp: U_def giftsAt_def split: if_splits)
  then have "\<exists>xs. res = dedupeGifts xs \<and> set xs \<subseteq> set gifts \<and> length xs \<le> topN"
  proof cases
    case likes
    have "set (take topN (List.map_filter (nthOpt gifts) U)) \<subseteq> set gifts"
      using map_filter_nthOpt_subset [of gifts U] by (auto dest: in_set_takeD)
    with likes show ?thesis by (intro exI [of _ "take topN (List.map_filter (nthOpt gifts) U)"]) simp
  next
    case cover
    then show ?thesis
      by (intro exI [of _ "map ((!) gifts) (take topN idxs)"]) (auto simp: list_all_iff)
  next
    case plain
    with lenU show ?thesis
      by (intro exI [of _ "map ((!) gifts) U"]) (auto simp: list_all_iff)
  qed
  then show ?thesis ..
qed

lemma rerankGifts_results:
  assumes "rerankGifts env response gifts personaString od topN profile = Inr res"
  shows "(res = gifts \<and> length gifts \<le> topN) \<or> res = take topN gifts
         \<or> res = take topN (fst (prefilter gifts profile))
         \<or> (\<exists>xs. res = dedupeGifts xs \<and> set xs \<subseteq> set gifts \<and> length xs \<le> topN)"
proof (cases "keyConfigured env \<and> gifts \<noteq> [] \<and> topN < length gifts")
  case False
  with assms show ?thesis
    by (auto simp: rerankGifts_def split: if_splits)
next
  case True
  show ?thesis
  proof (cases response)
    case (Choice content)
    show ?thesis
    proof (cases "rankWithChoice gifts od topN profile (fst (prefilter gifts profile))
             (snd (prefilter gifts profile)) content")
      case None
      with True Choice assms show ?thesis by (simp add: rerankGifts_def)
    next
      case (Some r)
      with True Choice assms have "r = res" by (simp add: rerankGifts_def)
      with rankWithChoice_prefilter [OF Some] show ?thesis by blast
    qed
  qed (use True assms in \<open>simp_all add: rerankGifts_def\<close>)
qed

lemma prefilter_subset: "set (fst (prefilter gifts profile)) \<subseteq> set gifts"
  using prefilter_range [of _ gifts profile] by (auto simp: prefilter_map [of gifts profile])


lemma rankingOf_range: "i \<in> set (rankingOf gifts profile topN response) \<Longrightarrow> i < length gifts"
proof (cases response)
  case (Choice content)
  assume "i \<in> set (rankingOf gifts profile topN response)"
  with Choice have "i \<in> set (acceptedIndices (length (snd (prefilter gifts profile)))
      (snd (prefilter gifts profile)) topN content)"
    by (simp add: rankingOf_def prefilter_length)
  then show ?thesis
    using acceptedIndices_range [of "snd (prefilter gifts profile)" "length gifts"] prefilter_range
    by blast
qed (simp_all add: rankingOf_def)

text \<open>The result when the model's ranking is accepted.\<close>

lemma rerankGifts_accepted:
  assumes key: "keyConfigured env" and big: "topN < length gifts"
    and U: "rankingOf gifts profile topN response = U" and ne: "U \<noteq> []"
  shows "rerankGifts env response gifts personaString od topN profile =
     Inr (dedupeGifts (map ((!) gifts)
       (if hasLikes profile then take topN U
        else if trim (memo od) \<noteq> [] \<and> trim (addMemo od) \<noteq> []
              \<and> trim (memo od) \<noteq> placeholder \<and> trim (addMemo od) \<noteq> placeholder then
          take topN
            (coverageIndices (relatedIndices (keywordsOf (trim (memo od))) gifts)
               (relatedIndices (keywordsOf (trim (addMemo od))) gifts) U topN)
        else U)))"
proof -
  from U ne obtain content where resp: "response = Choice content"
    and acc: "acceptedIndices (length (fst (prefilter gifts profile)))
                (snd (prefilter gifts profile)) topN content = U"
    by (cases response) (auto simp: rankingOf_def)
  have rangeU: "\<And>i. i \<in> set U \<Longrightarrow> i < length gifts"
    using rankingOf_range [of _ gifts profile topN response] U by simp
  let ?cov = "coverageIndices (relatedIndices (keywordsOf (trim (memo od))) gifts)
               (relatedIndices (keywordsOf (trim (addMemo od))) gifts) U topN"
  have rangeCov: "\<And>i. i \<in> set (take topN ?cov) \<Longrightarrow> i < length gifts"
    using coverageIndices_subset [of "relatedIndices (keywordsOf (trim (memo od))) gifts"
        "relatedIndices (keywordsOf (trim (addMemo od))) gifts" U topN]
      relatedIndices_range rangeU
    by (blast dest: in_set_takeD)
  have likes: "take topN (List.map_filter (nthOpt gifts) U) = map ((!) gifts) (take topN U)"
    using rangeU by (simp add: map_filter_nthOpt list_all_iff take_map)
  have "gifts \<noteq> []" using big by auto
  then show ?thesis
    unfolding rerankGifts_def resp
    using key big rankWithChoice_accepted [OF acc ne, of gifts od profile]
      giftsAt_Some [OF rangeU] giftsAt_Some [OF rangeCov] likes
    by simp
qed


section \<open>The functions on the concrete inputs\<close>

lemmas string_eval = js_def trim_def isSpace_def toLowerCase_def lowerUnit_def orElse_def
  isDigit_def

lemmas gift_eval = namedGift_def metadataOf_def productId_def productName_def giftName_def
  giftDocument_def wineSet_def candleSet_def backSupport_def golfBag_def wineSetAgain_def
  yogaMat_def golfBox_def yogaBox_def teaTin_def noMetadata_def

lemmas json_eval = JSON_parse_def isJsonSpace_def parseNumber_def parseExponent_def
  digitsVal_def isNumberUnit_def Let_def

lemmas parse_eval = parseRankedIndices_def isIndexBody_def json_eval

lemmas cover_eval = relatedIndices_def isKeywordRelated_def searchTextOf_def keywordsOf_def
  isKeywordSeparator_def placeholder_def golfYoga_def candleLumbar_def

lemmas extract_eval = extractCandidate_def fenceMatch_def greedyBetween_def

lemmas scan_eval = lastSafePosOf_def scanPattern.simps execPattern_def matchPairAt_def
  matchCommaEolAt_def isLineTerminator_def

lemma keyedEnv_configured: "keyConfigured keyedEnv"
  by (simp add: keyConfigured_def keyedEnv_def js_def)

lemma noKeyEnv_unconfigured: "\<not> keyConfigured noKeyEnv"
  by (simp add: keyConfigured_def noKeyEnv_def)

lemma parse_oops: "parseRankedIndices (js ''oops'') = None"
  by (simp add: parse_eval string_eval)

lemma parse_012: "parseRankedIndices (js ''[0, 1, 2]'') = Some (JArr [JNum 0, JNum 1, JNum 2])"
  by (simp add: parse_eval string_eval)

lemma parse_01: "parseRankedIndices (js ''[0, 1]'') = Some (JArr [JNum 0, JNum 1])"
  by (simp add: parse_eval string_eval)

lemma parse_0: "parseRankedIndices (js ''[0]'') = Some (JArr [JNum 0])"
  by (simp add: parse_eval string_eval)

lemma prefilter_fourGifts_likes:
  "prefilter fourGifts (Some golfLikes)
     = ([golfBag, wineSet, candleSet, backSupport], [3, 0, 1, 2])"
  by (simp add: prefilter_def golfLikes_def likesItems_def isLikesRelated_def Let_def
      maxGiftsForRerank_def fourGifts_def gift_eval string_eval)

lemma prefilter_none: "length gifts \<le> 30 \<Longrightarrow> prefilter gifts None = (gifts, [0..<length gifts])"
  by (simp add: prefilter_def)

lemma ranking_fourGifts_oops: "rankingOf fourGifts (Some golfLikes) 2 (Choice (js ''oops'')) = []"
  by (simp add: rankingOf_def acceptedIndices_def parse_oops)

lemma ranking_fourGifts_likes:
  "rankingOf fourGifts (Some golfLikes) 2 (Choice (js ''[0, 1]'')) = [3, 0]"
  by (simp add: rankingOf_def acceptedIndices_def parse_01 prefilter_fourGifts_likes
      validIndices_def List.map_filter_simps)

lemma ranking_dupPool: "rankingOf dupPool None 3 (Choice (js ''[0, 1, 2]'')) = [0, 1, 2]"
  by (simp add: rankingOf_def acceptedIndices_def parse_012 prefilter_none dupPool_def
      validIndices_def List.map_filter_simps)

lemma ranking_dupPool_oops: "rankingOf dupPool None 3 (Choice (js ''oops'')) = []"
  by (simp add: rankingOf_def acceptedIndices_def parse_oops)

lemma ranking_covPool: "rankingOf covPool None 2 (Choice (js ''[0, 1]'')) = [0, 1]"
  by (simp add: rankingOf_def acceptedIndices_def parse_01 prefilter_none covPool_def
      validIndices_def List.map_filter_simps)


lemma ranking_boxPool: "rankingOf boxPool None 2 (Choice (js ''[0]'')) = [0]"
  by (simp add: rankingOf_def acceptedIndices_def parse_0 prefilter_none boxPool_def
      validIndices_def List.map_filter_simps)

lemma dedupe_dupPool_ranked: "dedupeGifts [wineSet, wineSetAgain, candleSet] = [wineSet, candleSet]"
  by (simp add: dedupeGifts_def gift_eval string_eval)

lemma dedupe_dupPool: "dedupeGifts dupPool = [wineSet, candleSet, golfBag]"
  by (simp add: dedupeGifts_def dupPool_def gift_eval string_eval)

lemma dedupe_golf_wine: "dedupeGifts [golfBag, wineSet] = [golfBag, wineSet]"
  by (simp add: dedupeGifts_def gift_eval string_eval)

lemma dedupe_golf_yoga: "dedupeGifts [golfBag, yogaMat] = [golfBag, yogaMat]"
  by (simp add: dedupeGifts_def gift_eval string_eval)

lemma dedupe_boxes: "dedupeGifts [golfBox, yogaBox] = [golfBox]"
  by (simp add: dedupeGifts_def gift_eval string_eval)

lemma golfYoga_memos:
  "trim (memo golfYoga) \<noteq> [] \<and> trim (addMemo golfYoga) \<noteq> []
   \<and> trim (memo golfYoga) \<noteq> placeholder \<and> trim (addMemo golfYoga) \<noteq> placeholder"
  by (simp add: golfYoga_def placeholder_def string_eval)

lemma related_covPool:
  "relatedIndices (keywordsOf (trim (memo golfYoga))) covPool = [3]
   \<and> relatedIndices (keywordsOf (trim (addMemo golfYoga))) covPool = [4]"
  by (simp add: cover_eval covPool_def gift_eval string_eval)

lemma related_boxPool:
  "relatedIndices (keywordsOf (trim (memo golfYoga))) boxPool = [2]
   \<and> relatedIndices (keywordsOf (trim (addMemo golfYoga))) boxPool = [3]"
  by (simp add: cover_eval boxPool_def gift_eval string_eval)





lemma golf_yoga_related:
  "list_ex (isKeywordRelated (keywordsOf (trim (memo golfYoga)))) [golfBag, yogaMat]
   \<and> list_ex (isKeywordRelated (keywordsOf (trim (addMemo golfYoga)))) [golfBag, yogaMat]"
  by (simp add: cover_eval gift_eval string_eval)



lemma wine_twice: "productName wineSet = productName wineSetAgain \<and> productName wineSet \<noteq> []"
  by (simp add: gift_eval string_eval)

text \<open>The results of \<open>rerankGifts\<close> on these inputs.\<close>

lemma rerankGifts_rejected:
  assumes "keyConfigured env" and "topN < length gifts"
    and "rankingOf gifts profile topN (Choice content) = []"
  shows "rerankGifts env (Choice content) gifts personaString od topN profile
           = Inr (take topN (fst (prefilter gifts profile)))"
proof -
  from assms(3) have acc: "acceptedIndices (length (fst (prefilter gifts profile)))
                (snd (prefilter gifts profile)) topN content = []"
    by (simp add: rankingOf_def)
  from assms(2) have "gifts \<noteq> []" by auto
  then show ?thesis
    using assms(1,2) rankWithChoice_rejected [OF acc, of gifts od profile]
      fallbackTopN_take [OF prefilter_map prefilter_range]
    by (simp add: rerankGifts_def)
qed

lemma result_dupPool:
  "rerankGifts keyedEnv (Choice (js ''[0, 1, 2]'')) dupPool (js ''persona'') noData 3 None
     = Inr [wineSet, candleSet]"
  using rerankGifts_accepted [OF keyedEnv_configured _ ranking_dupPool, of "js ''persona''" noData]
  by (simp add: dupPool_def hasLikes_def noData_def trim_def dedupe_dupPool_ranked)

lemma result_dupPool_oops:
  "rerankGifts keyedEnv (Choice (js ''oops'')) dupPool (js ''persona'') noData 3 None
     = Inr [wineSet, wineSetAgain, candleSet]"
proof -
  have big: "3 < length dupPool" by (simp add: dupPool_def)
  from rerankGifts_rejected [OF keyedEnv_configured big ranking_dupPool_oops,
      of "js ''persona''" noData]
  show ?thesis by (simp add: prefilter_none dupPool_def)
qed

lemma result_fourGifts_oops:
  "rerankGifts keyedEnv (Choice (js ''oops'')) fourGifts (js ''persona'') noData 2 (Some golfLikes)
     = Inr [golfBag, wineSet]"
proof -
  have big: "2 < length fourGifts" by (simp add: fourGifts_def)
  from rerankGifts_rejected [OF keyedEnv_configured big ranking_fourGifts_oops,
      of "js ''persona''" noData]
  show ?thesis by (simp add: prefilter_fourGifts_likes)
qed


lemma result_fourGifts_likes:
  "rerankGifts keyedEnv (Choice (js ''[0, 1]'')) fourGifts (js ''persona'') od 2 (Some golfLikes)
     = Inr [golfBag, wineSet]"
proof -
  have big: "2 < length fourGifts" by (simp add: fourGifts_def)
  from rerankGifts_accepted [OF keyedEnv_configured big ranking_fourGifts_likes,
      of "js ''persona''" od]
  show ?thesis
    by (simp add: hasLikes_def golfLikes_def fourGifts_def dedupe_golf_wine)
qed

lemma result_covPool:
  "rerankGifts keyedEnv (Choice (js ''[0, 1]'')) covPool (js ''persona'') golfYoga 2 None
     = Inr [golfBag, yogaMat]"
proof -
  have sel: "take 2 (coverageIndices [3] [4] [0, 1] 2) = [3, 4]"
    by (simp add: coverageIndices_def forcedMemo_def forcedAddMemo_def slice0_def Let_def)
  have big: "2 < length covPool" by (simp add: covPool_def)
  from rerankGifts_accepted [OF keyedEnv_configured big ranking_covPool,
      of "js ''persona''" golfYoga]
  show ?thesis
    using golfYoga_memos related_covPool sel dedupe_golf_yoga
    by (simp add: hasLikes_def covPool_def)
qed


lemma result_boxPool:
  "rerankGifts keyedEnv (Choice (js ''[0]'')) boxPool (js ''persona'') golfYoga 2 None
     = Inr [golfBox]"
proof -
  have sel: "take 2 (coverageIndices [2] [3] [0] 2) = [2, 3]"
    by (simp add: coverageIndices_def forcedMemo_def forcedAddMemo_def slice0_def Let_def)
  have big: "2 < length boxPool" by (simp add: boxPool_def)
  from rerankGifts_accepted [OF keyedEnv_configured big ranking_boxPool,
      of "js ''persona''" golfYoga]
  show ?thesis
    using golfYoga_memos related_boxPool sel dedupe_boxes
    by (simp add: hasLikes_def boxPool_def)
qed

text \<open>A loop over a pattern without the \<open>g\<close> flag does not end once the pattern matches.\<close>

lemma scanPattern_stuck:
  assumes "scanPattern p s li lsp = Some r"
  shows "\<not> (\<exists>i len. execPattern p s li = Some (i, len, li))"
proof (rule scanPattern.raw_induct
    [where P = "\<lambda>p s li lsp r. \<not> (\<exists>i len. execPattern p s li = Some (i, len, li))",
      OF _ assms])
  fix scan p s li lsp r
  assume IH: "\<And>p s li lsp r. scan p s li lsp = Some r
      \<Longrightarrow> \<not> (\<exists>i len. execPattern p s li = Some (i, len, li))"
    and body: "(case execPattern p s li of
        None \<Rightarrow> Some lsp
      | Some m \<Rightarrow>
          scan p s (snd (snd m))
            (if lsp < int (fst m) then int (fst m) + int (fst (snd m)) - 1 else lsp)) = Some r"
  show "\<not> (\<exists>i len. execPattern p s li = Some (i, len, li))"
  proof (cases "execPattern p s li")
    case None
    then show ?thesis by simp
  next
    case (Some m)
    with body IH [of p s "snd (snd m)" _ r] show ?thesis by auto
  qed
qed

lemma scanPattern_diverges:
  "execPattern p s li = Some (i, len, li) \<Longrightarrow> scanPattern p s li lsp = None"
  using scanPattern_stuck [of p s li lsp] by (cases "scanPattern p s li lsp") auto

text \<open>The steps of \<open>recover\<close> on four texts.\<close>

lemma comma_in_string_steps:
  \<open>extractCandidate (js ''{"a":"x,}"}'') = js ''{"a":"x,}"}''\<close>
  \<open>stripTrailingCommas (js ''{"a":"x,}"}'') = js ''{"a":"x}"}''\<close>
  \<open>JSON_parse (js ''{"a":"x}"}'') = Some (JObj [(js ''a'', JStr (js ''x}''))])\<close>
  by (simp_all add: extract_eval json_eval string_eval)

lemma array_of_object_steps:
  \<open>extractCandidate (js ''[{"a":1}]'') = js ''{"a":1}''\<close>
  \<open>stripTrailingCommas (js ''{"a":1}'') = js ''{"a":1}''\<close>
  \<open>JSON_parse (js ''{"a":1}'') = Some (JObj [(js ''a'', JNum 1)])\<close>
  by (simp_all add: extract_eval json_eval string_eval)

lemma truncated_array_steps:
  \<open>extractCandidate (js ''[{"a":1},{"a":2},'') = js ''{"a":1},{"a":2}''\<close>
  \<open>stripTrailingCommas (js ''{"a":1},{"a":2}'') = js ''{"a":1},{"a":2}''\<close>
  \<open>JSON_parse (js ''{"a":1},{"a":2}'') = None\<close>
  \<open>strategy2 (js ''{"a":1},{"a":2}'') = None\<close>
  by (simp_all add: extract_eval json_eval strategy2_def matchKeyAt_def knownKeys_def
      string_eval)

lemma truncated_array_scan: \<open>lastSafePosOf (js ''{"a":1},{"a":2}'') = Some (- 1)\<close>
  by (simp add: scan_eval string_eval)

lemma truncated_events_steps:
  \<open>extractCandidate (js ''{"events":[{"a":1},{"a":2},'') = js ''{"events":[{"a":1},{"a":2}''\<close>
  \<open>stripTrailingCommas (js ''{"events":[{"a":1},{"a":2}'') = js ''{"events":[{"a":1},{"a":2}''\<close>
  \<open>JSON_parse (js ''{"events":[{"a":1},{"a":2}'') = None\<close>
  \<open>keyMatches (js ''{"events":[{"a":1},{"a":2}'') 0 = [(js ''events'', 11)]\<close>
  \<open>salvageArray (js ''{"events":[{"a":1},{"a":2}'') 11 = Some (JArr [JObj [(js ''a'', JNum 1)]])\<close>
  by (simp_all add: extract_eval json_eval matchKeyAt_def knownKeys_def salvageArray_def
      string_eval)

lemma truncated_events_scan: \<open>lastSafePosOf (js ''{"events":[{"a":1},{"a":2}'') = Some (- 1)\<close>
  by (simp add: scan_eval string_eval)

lemma parse_original:
  \<open>JSON_parse (js ''{"a":"x,}"}'') = Some (JObj [(js ''a'', JStr (js ''x,}''))])\<close>
  \<open>JSON_parse (js ''[{"a":1}]'') = Some (JArr [JObj [(js ''a'', JNum 1)]])\<close>
  by (simp_all add: json_eval string_eval)

lemma parseRationale_oops: "parseRationale (js ''oops'') = None"
  by (simp add: parseRationale_def json_eval string_eval)

section \<open>The claims\<close>

subsection \<open>Recovery parser\<close>

text \<open>
  C1. Round trip of the recovery parser: for every valid JSON value, \<open>generateJSON\<close> run
  on the serialisation of the value returns that value, and the removal of trailing
  commas never changes text that is already valid JSON. The code does not do this. On
  the valid text \<open>{"a":"x,}"}\<close> it returns an object whose member is the string
  \<open>x}\<close>: the normalisation removes the comma inside the string literal. On the valid
  text \<open>[{"a":1}]\<close> it returns the object inside the array, because the object pattern
  is tried before the array pattern.
\<close>

theorem generateJSON_round_trip_broken:
  \<open>JSON_parse (js ''{"a":"x,}"}'') = Some (JObj [(js ''a'', JStr (js ''x,}''))])
   \<and> generateJSON keyedEnv (Choice (js ''{"a":"x,}"}''))
       = Some (Inr (JObj [(js ''a'', JStr (js ''x}''))]))
   \<and> JSON_parse (js ''[{"a":1}]'') = Some (JArr [JObj [(js ''a'', JNum 1)]])
   \<and> generateJSON keyedEnv (Choice (js ''[{"a":1}]''))
       = Some (Inr (JObj [(js ''a'', JNum 1)]))\<close>
  using keyedEnv_configured comma_in_string_steps array_of_object_steps parse_original
  by (simp add: generateJSON_def recover_def)

text \<open>
  C2. Truncation tolerance of the recovery parser: for a serialised array of \<open>k\<close> objects
  cut at a boundary between the elements \<open>i\<close> and \<open>i + 1\<close>, the recovery strategies
  succeed and return an array that holds at least the elements \<open>0\<close> to \<open>i\<close>. The code
  does not do this. The array of three objects cut after its second element,
  \<open>[{"a":1},{"a":2},\<close>, makes every strategy fail and the function throw. The same
  array under the known key \<open>events\<close> is salvaged without its second element. The same
  array printed with one element per line makes the first strategy loop for ever.
\<close>

theorem generateJSON_truncation_lost:
  \<open>generateJSON keyedEnv (Choice (js ''[{"a":1},{"a":2},'')) = Some (Inl JsonParseError)
   \<and> generateJSON keyedEnv (Choice (js ''{"events":[{"a":1},{"a":2},''))
       = Some (Inr (JObj [(js ''events'', JArr [JObj [(js ''a'', JNum 1)]])]))
   \<and> generateJSON keyedEnv
         (Choice (js ''[\<newline>  {"a": 1},\<newline>  {"a": 2},\<newline>'')) = None\<close>
proof -
  have thrown: \<open>recover (js ''[{"a":1},{"a":2},'') = Some (Inl JsonParseError)\<close>
    using truncated_array_steps truncated_array_scan
    by (simp add: recover_def strategy1_def lastResort_def js_def)
  have salvaged: \<open>recover (js ''{"events":[{"a":1},{"a":2},'')
      = Some (Inr (JObj [(js ''events'', JArr [JObj [(js ''a'', JNum 1)]])]))\<close>
    using truncated_events_steps truncated_events_scan
    by (simp add: recover_def strategy1_def strategy2_def lastResort_def js_def)
  have steps:
    \<open>extractCandidate (js ''[\<newline>  {"a": 1},\<newline>  {"a": 2},\<newline>'')
       = js ''{"a": 1},\<newline>  {"a": 2}''\<close>
    \<open>stripTrailingCommas (js ''{"a": 1},\<newline>  {"a": 2}'') = js ''{"a": 1},\<newline>  {"a": 2}''\<close>
    \<open>JSON_parse (js ''{"a": 1},\<newline>  {"a": 2}'') = None\<close>
    by (simp_all add: extract_eval json_eval string_eval)
  have found: \<open>execPattern (CloseCommaEol 125) (js ''{"a": 1},\<newline>  {"a": 2}'') 0
      = Some (7, 2, 0)\<close>
    by (simp add: execPattern_def matchCommaEolAt_def isLineTerminator_def string_eval)
  have hangs: \<open>recover (js ''[\<newline>  {"a": 1},\<newline>  {"a": 2},\<newline>'') = None\<close>
    using steps scanPattern_diverges [OF found]
    by (simp add: recover_def strategy1_def lastSafePosOf_def)
  show ?thesis
    using keyedEnv_configured thrown salvaged hangs by (simp add: generateJSON_def)
qed

subsection \<open>Re-ranking\<close>




text \<open>
  C4, amended. When \<open>OPENAI_API_KEY\<close> is configured, for every pool of at most \<open>N\<close>
  gifts \<open>rerankGifts\<close> returns the pool itself, in its order and unchanged, for any
  persona, any profile and any answer of the backend.
\<close>

theorem rerankGifts_short_circuit:
  assumes "keyConfigured env" and "length gifts \<le> topN"
  shows "rerankGifts env response gifts personaString od topN profile = Inr gifts"
  using assms by (simp add: rerankGifts_def)

theorem rerankGifts_short_circuit_witness:
  "keyConfigured keyedEnv \<and> length [wineSet, wineSetAgain] \<le> 3
   \<and> rerankGifts keyedEnv RequestFailed [wineSet, wineSetAgain] (js ''persona'') noData 3
        (Some golfLikes) = Inr [wineSet, wineSetAgain]"
  using rerankGifts_short_circuit [OF keyedEnv_configured, where gifts = "[wineSet, wineSetAgain]"
      and topN = 3 and response = RequestFailed and personaString = "js ''persona''"
      and od = noData and profile = "Some golfLikes"]
    keyedEnv_configured
  by simp

text \<open>The claim as stated fails without the key: a pool of two gifts, \<open>N = 3\<close>, an error.\<close>

theorem rerankGifts_short_circuit_counterexample:
  "length [wineSet, candleSet] \<le> 3
   \<and> rerankGifts noKeyEnv RequestFailed [wineSet, candleSet] (js ''persona'') noData 3 None
       = Inl ApiKeyNotConfigured"
  using noKeyEnv_unconfigured by (simp add: rerankGifts_def)

text \<open>
  C5, amended. Whatever \<open>rerankGifts\<close> returns has at most \<open>N\<close> gifts. (It can have fewer
  than \<open>N\<close> although the pool holds \<open>N\<close> or more different gifts: a gift that the
  de-duplication drops is not replaced.)
\<close>

theorem rerankGifts_size_bound:
  assumes "rerankGifts env response gifts personaString od topN profile = Inr res"
  shows "length res \<le> topN"
proof -
  from rerankGifts_results [OF assms]
  consider "res = gifts \<and> length gifts \<le> topN" | "res = take topN gifts"
    | "res = take topN (fst (prefilter gifts profile))"
    | xs where "res = dedupeGifts xs" "length xs \<le> topN"
    by blast
  then show ?thesis
  proof cases
    case 4
    have "length (dedupeGifts xs) \<le> length xs"
      unfolding dedupeGifts_def by (rule dedupeFrom_length)
    with 4 show ?thesis by simp
  qed simp_all
qed

theorem rerankGifts_size_bound_witness:
  "rerankGifts keyedEnv (Choice (js ''[0, 1]'')) covPool (js ''persona'') golfYoga 2 None
     = Inr [golfBag, yogaMat]
   \<and> length [golfBag, yogaMat] \<le> 2"
  using rerankGifts_size_bound [OF result_covPool] result_covPool by simp

text \<open>
  The claim as stated fails on a pool of four gifts of which two have the same name: the
  model ranks three gifts, two are returned, and the pool holds three different gifts.
\<close>

theorem rerankGifts_size_bound_counterexample:
  "rerankGifts keyedEnv (Choice (js ''[0, 1, 2]'')) dupPool (js ''persona'') noData 3 None
     = Inr [wineSet, candleSet]
   \<and> length [wineSet, candleSet] < 3
   \<and> dedupeGifts dupPool = [wineSet, candleSet, golfBag]
   \<and> 3 \<le> length (dedupeGifts dupPool)"
  using result_dupPool dedupe_dupPool by simp

text \<open>
  C6, amended. When the pool has more than \<open>N\<close> gifts and the answer of the backend
  yields a ranking, no two gifts of the result have the same non-empty product id and no
  two have the same non-empty lower-cased, trimmed name. (The short circuit returns the
  pool as it is.)
\<close>

theorem rerankGifts_deduplicated:
  assumes "keyConfigured env" and "topN < length gifts"
    and "rankingOf gifts profile topN response \<noteq> []"
  shows "\<exists>res. rerankGifts env response gifts personaString od topN profile = Inr res
           \<and> noSharedIdentity res"
  using rerankGifts_accepted [OF assms(1,2) refl assms(3), of personaString od]
    dedupeGifts_noSharedIdentity
  by simp

theorem rerankGifts_deduplicated_witness:
  "keyConfigured keyedEnv \<and> 3 < length dupPool
   \<and> rankingOf dupPool None 3 (Choice (js ''[0, 1, 2]'')) \<noteq> []
   \<and> rerankGifts keyedEnv (Choice (js ''[0, 1, 2]'')) dupPool (js ''persona'') noData 3 None
       = Inr [wineSet, candleSet]
   \<and> noSharedIdentity [wineSet, candleSet]"
proof -
  have big: "3 < length dupPool" by (simp add: dupPool_def)
  have ranked: "rankingOf dupPool None 3 (Choice (js ''[0, 1, 2]'')) \<noteq> []"
    by (simp add: ranking_dupPool)
  from rerankGifts_deduplicated [OF keyedEnv_configured big ranked,
      of "js ''persona''" noData]
  have "noSharedIdentity [wineSet, candleSet]" by (simp add: result_dupPool)
  then show ?thesis
    using keyedEnv_configured big ranked result_dupPool by simp
qed

text \<open>
  The claim as stated fails on the short circuit and on the fallback: both return the two
  wine sets, which have the same normalised name.
\<close>

theorem rerankGifts_deduplicated_counterexample:
  "rerankGifts keyedEnv RequestFailed [wineSet, wineSetAgain] (js ''persona'') noData 3 None
     = Inr [wineSet, wineSetAgain]
   \<and> rerankGifts keyedEnv (Choice (js ''oops'')) dupPool (js ''persona'') noData 3 None
     = Inr [wineSet, wineSetAgain, candleSet]
   \<and> productName wineSet = productName wineSetAgain \<and> productName wineSet \<noteq> []"
proof -
  have short: "rerankGifts keyedEnv RequestFailed [wineSet, wineSetAgain] (js ''persona'')
      noData 3 None = Inr [wineSet, wineSetAgain]"
    using keyedEnv_configured by (simp add: rerankGifts_def)
  show ?thesis
    using short result_dupPool_oops wine_twice by blast
qed






text \<open>
  C10. Every gift that \<open>rerankGifts\<close> returns is a gift of the pool it was given, on every
  path and for every answer of the backend.
\<close>

theorem rerankGifts_pool_membership:
  assumes "rerankGifts env response gifts personaString od topN profile = Inr res"
  shows "set res \<subseteq> set gifts"
proof -
  from rerankGifts_results [OF assms]
  consider "res = gifts \<and> length gifts \<le> topN" | "res = take topN gifts"
    | "res = take topN (fst (prefilter gifts profile))"
    | xs where "res = dedupeGifts xs" "set xs \<subseteq> set gifts"
    by blast
  then show ?thesis
  proof cases
    case 1
    then show ?thesis by simp
  next
    case 2
    then show ?thesis by (auto dest: in_set_takeD)
  next
    case 3
    then show ?thesis using prefilter_subset [of gifts profile] by (auto dest: in_set_takeD)
  next
    case 4
    have "set (dedupeGifts xs) \<subseteq> set xs"
      unfolding dedupeGifts_def by (rule dedupeFrom_subset)
    with 4 show ?thesis by blast
  qed
qed

theorem rerankGifts_pool_membership_witness:
  "rerankGifts keyedEnv (Choice (js ''[0]'')) boxPool (js ''persona'') golfYoga 2 None
     = Inr [golfBox]
   \<and> set [golfBox] \<subseteq> set boxPool"
  using rerankGifts_pool_membership [OF result_boxPool] result_boxPool by simp

subsection \<open>Rationale\<close>

text \<open>
  C9, amended. When \<open>OPENAI_API_KEY\<close> is configured, \<open>generateGiftRationale\<close> raises no
  exception. When the request fails it returns the gift's category (or the default
  title) and the persona string followed by a fixed phrase. When the backend returns no
  choice, or a text that cannot be parsed or lacks a title or a description, the title is
  the part of the additional memo before its first underscore if that field is set and
  is not the placeholder, and the category (or the default title) otherwise; the
  description is the persona string, the gift's name and fixed phrases.
\<close>

theorem generateGiftRationale_fallback:
  assumes "keyConfigured env"
  shows "(\<exists>r. generateGiftRationale env response g personaString od = Inr r)
       \<and> (response = RequestFailed \<longrightarrow>
            generateGiftRationale env response g personaString od
              = Inr \<lparr>title = JStr (orElse (m_category (metadataOf g)) recommendedGift),
                     description = JStr (personaString @ fittedTo @ recommended)\<rparr>)
       \<and> (response = NoChoices \<or> (\<exists>content. response = Choice content
                                       \<and> parseRationale content = None) \<longrightarrow>
            generateGiftRationale env response g personaString od
              = Inr \<lparr>title = JStr (if addMemo od \<noteq> [] \<and> addMemo od \<noteq> placeholder
                                   then takeWhile (\<lambda>c. c \<noteq> 95) (addMemo od)
                                   else orElse (m_category (metadataOf g)) recommendedGift),
                     description = JStr (personaString @ fittedTo @ orElse (giftName g) giftWord
                                          @ isRecommended)\<rparr>)"
  using assms
  by (auto simp: generateGiftRationale_def catchRationale_def simpleRationale_def
      split: backendResponse.splits option.splits)

theorem generateGiftRationale_fallback_witness:
  "keyConfigured keyedEnv
   \<and> generateGiftRationale keyedEnv RequestFailed teaTin (js ''persona'') birthday
       = Inr \<lparr>title = JStr (js ''Food''),
              description = JStr (js ''persona'' @ fittedTo @ recommended)\<rparr>
   \<and> parseRationale (js ''oops'') = None
   \<and> generateGiftRationale keyedEnv (Choice (js ''oops'')) teaTin (js ''persona'') noData
       = Inr \<lparr>title = JStr (js ''Food''),
              description = JStr (js ''persona'' @ fittedTo @ js ''Tea Tin'' @ isRecommended)\<rparr>"
proof -
  from generateGiftRationale_fallback [OF keyedEnv_configured, where response = RequestFailed
      and g = teaTin and personaString = "js ''persona''" and od = birthday]
  have failed: "generateGiftRationale keyedEnv RequestFailed teaTin (js ''persona'') birthday
       = Inr \<lparr>title = JStr (js ''Food''),
              description = JStr (js ''persona'' @ fittedTo @ recommended)\<rparr>"
    by (simp add: gift_eval string_eval)
  from generateGiftRationale_fallback [OF keyedEnv_configured,
      where response = "Choice (js ''oops'')" and g = teaTin
      and personaString = "js ''persona''" and od = noData]
  have unparsed: "generateGiftRationale keyedEnv (Choice (js ''oops'')) teaTin (js ''persona'')
        noData
       = Inr \<lparr>title = JStr (js ''Food''),
              description = JStr (js ''persona'' @ fittedTo @ js ''Tea Tin'' @ isRecommended)\<rparr>"
    using parseRationale_oops by (simp add: noData_def gift_eval string_eval)
  show ?thesis
    using keyedEnv_configured failed unparsed parseRationale_oops by simp
qed

text \<open>
  The claim as stated fails without the key, where the function throws, and when the
  backend returns no choice while the additional memo is set: the title is then taken
  from the additional memo and not from the category.
\<close>

theorem generateGiftRationale_fallback_counterexample:
  "generateGiftRationale noKeyEnv RequestFailed teaTin (js ''persona'') birthday
     = Inl ApiKeyNotConfigured
   \<and> generateGiftRationale keyedEnv NoChoices teaTin (js ''persona'') birthday
     = Inr \<lparr>title = JStr (js ''birthday''),
            description = JStr (js ''persona'' @ fittedTo @ js ''Tea Tin'' @ isRecommended)\<rparr>
   \<and> m_category (metadataOf teaTin) = js ''Food''"
  using noKeyEnv_unconfigured keyedEnv_configured
  by (simp add: generateGiftRationale_def simpleRationale_def birthday_def placeholder_def
      gift_eval string_eval)

end
